theory Spec2Isabelle
  imports Complex_Main
begin

section \<open>Python values, errors and warnings\<close>

text \<open>
  The module \<^verbatim>\<open>mne_bids/dig.py\<close> reads and writes the two BIDS sidecars that carry
  electrode positions: \<^verbatim>\<open>electrodes.tsv\<close> and \<^verbatim>\<open>coordsystem.json\<close>.
  Every exception the module can raise is a value of \<open>error\<close>; a function that touches
  files or warns takes the state and returns it, also when it raises.
\<close>

datatype error =
    RuntimeError | ValueError | IndexError | KeyError | TypeError | AttributeError
  | UnboundLocalError | FileNotFoundError | FileExistsError | JSONDecodeError

text \<open>
  A Python float is either not-a-number or a number. Rounding is not modelled: the
  numbers are the reals.
\<close>

datatype pyfloat = NaN | Fin real

fun isnan :: "pyfloat \<Rightarrow> bool" where
  "isnan NaN = True"
| "isnan (Fin _) = False"

fun fmul :: "pyfloat \<Rightarrow> pyfloat \<Rightarrow> pyfloat" where
  "fmul (Fin a) (Fin b) = Fin (a * b)"
| "fmul _ _ = NaN"

fun fdiv :: "pyfloat \<Rightarrow> real \<Rightarrow> pyfloat" where
  "fdiv (Fin a) d = Fin (a / d)"
| "fdiv NaN d = NaN"

type_synonym coord = "pyfloat \<times> pyfloat \<times> pyfloat"

text \<open>A cell of a table column is a string or a float; the two never compare equal.\<close>

datatype pyval = PStr string | PFloat pyfloat

text \<open>
  Lowering of the ASCII letters A to Z. Python's \<^verbatim>\<open>str.lower()\<close> lowers every cased
  character of Unicode; the functions below take it as a parameter, and this is its
  value on ASCII strings, which the sample setting uses.
\<close>

definition lower_char :: "char \<Rightarrow> char" where
  "lower_char c =
     (case map_of (zip ''ABCDEFGHIJKLMNOPQRSTUVWXYZ'' ''abcdefghijklmnopqrstuvwxyz'') c of
        Some d \<Rightarrow> d
      | None \<Rightarrow> c)"

definition lower :: "string \<Rightarrow> string" where
  "lower s = map lower_char s"

text \<open>\<^verbatim>\<open>'%d' % n\<close>: the decimal digits of an integer.\<close>

function string_of_nat :: "nat \<Rightarrow> string" where
  "string_of_nat n =
     (if n < 10 then [''0123456789'' ! n]
      else string_of_nat (n div 10) @ [''0123456789'' ! (n mod 10)])"
  by pat_completeness auto
termination
  by (relation "measure id") auto

declare string_of_nat.simps [simp del]

definition string_of_int :: "int \<Rightarrow> string" where
  "string_of_int i = (if i < 0 then ''-'' @ string_of_nat (nat (- i)) else string_of_nat (nat i))"

text \<open>
  A Python \<^verbatim>\<open>dict\<close> (and \<^verbatim>\<open>OrderedDict\<close>) is an association list in insertion order;
  \<open>dict_set\<close> is \<^verbatim>\<open>d[k] = v\<close>, \<open>dict_getitem\<close> is \<^verbatim>\<open>d[k]\<close>, \<open>map_of\<close> is
  \<^verbatim>\<open>d.get(k, None)\<close>, \<open>dict_of\<close> is \<^verbatim>\<open>dict(pairs)\<close>.
\<close>

fun dict_set :: "'k \<Rightarrow> 'v \<Rightarrow> ('k \<times> 'v) list \<Rightarrow> ('k \<times> 'v) list" where
  "dict_set k v [] = [(k, v)]"
| "dict_set k v ((k', v') # d) = (if k = k' then (k, v) # d else (k', v') # dict_set k v d)"

definition dict_of :: "('k \<times> 'v) list \<Rightarrow> ('k \<times> 'v) list" where
  "dict_of ps = foldl (\<lambda>d (k, v). dict_set k v d) [] ps"

definition dict_getitem :: "('k \<times> 'v) list \<Rightarrow> 'k \<Rightarrow> error + 'v" where
  "dict_getitem d k = (case map_of d k of None \<Rightarrow> Inl KeyError | Some v \<Rightarrow> Inr v)"

text \<open>A list comprehension over a function that may raise: the first exception wins.\<close>

fun map_result :: "('a \<Rightarrow> error + 'b) \<Rightarrow> 'a list \<Rightarrow> error + 'b list" where
  "map_result f [] = Inr []"
| "map_result f (x # xs) =
     (case f x of
        Inl e \<Rightarrow> Inl e
      | Inr y \<Rightarrow> (case map_result f xs of Inl e \<Rightarrow> Inl e | Inr ys \<Rightarrow> Inr (y # ys)))"

section \<open>The recording, the paths and the files\<close>

text \<open>
  A digitized point of \<^verbatim>\<open>raw.info['dig']\<close>, a channel of \<^verbatim>\<open>raw.info['chs']\<close> (of
  \<^verbatim>\<open>ch['loc']\<close> only the first three entries are read), the montage that
  \<^verbatim>\<open>raw.set_montage\<close> attaches, and the recording itself. \<open>dig\<close> is \<open>None\<close> when
  \<^verbatim>\<open>raw.info['dig']\<close> is; \<open>impedances\<close> is \<open>None\<close> when the recording has no such
  attribute.
\<close>

record digpoint =
  kind :: int
  ident :: int
  r :: coord
  coord_frame :: int

record channel =
  ch_name :: string
  loc :: coord

record montage =
  ch_pos :: "(string \<times> coord) list"
  frame :: string

record impedance =
  imp :: pyfloat
  imp_unit :: string

record raw =
  chs :: "channel list"
  bads :: "string list"
  dig :: "digpoint list option"
  impedances :: "(string \<times> impedance) list option"
  montage :: "montage option"

definition ch_names :: "raw \<Rightarrow> string list" where
  "ch_names rw = map ch_name (chs rw)"

text \<open>The constants of \<^verbatim>\<open>mne.io.constants.FIFF\<close> that the module names.\<close>

definition FIFFV_POINT_CARDINAL :: int where "FIFFV_POINT_CARDINAL = 1"
definition FIFFV_POINT_HPI :: int where "FIFFV_POINT_HPI = 2"
definition FIFFV_POINT_LPA :: int where "FIFFV_POINT_LPA = 1"
definition FIFFV_POINT_NASION :: int where "FIFFV_POINT_NASION = 2"
definition FIFFV_POINT_RPA :: int where "FIFFV_POINT_RPA = 3"
definition FIFFV_COORD_HEAD :: int where "FIFFV_COORD_HEAD = 4"

text \<open>
  Modelled from the spec: the path and entity codec (\<^verbatim>\<open>BIDSPath\<close> and
  \<^verbatim>\<open>get_entities_from_fname\<close> of \<^verbatim>\<open>mne_bids.path\<close>) is not among the sources. The
  spec gives it as: "given a template path, extract entity tags (subject, session,
  acquisition, space, datatype); given entity values, construct a new canonical path".
  A path is therefore the record of its entities, \<open>BIDSPath\<close> builds one and
  \<open>get_entities_from_fname\<close> reads it back.
\<close>

record bids_path =
  root :: string
  subject :: "string option"
  session :: "string option"
  acquisition :: "string option"
  space :: "string option"
  suffix :: string
  extension :: string

definition BIDSPath ::
  "string option \<Rightarrow> string option \<Rightarrow> string option \<Rightarrow> string option \<Rightarrow> string \<Rightarrow> string \<Rightarrow> string
     \<Rightarrow> bids_path" where
  "BIDSPath subject_id session_id acq space_tag suff ext rt =
     \<lparr>root = rt, subject = subject_id, session = session_id, acquisition = acq,
      space = space_tag, suffix = suff, extension = ext\<rparr>"

definition get_entities_from_fname :: "bids_path \<Rightarrow> bids_path" where
  "get_entities_from_fname p = p"

text \<open>
  A JSON value of a descriptor is a string or a mapping from labels to coordinate lists;
  a file is a table (an ordered mapping from column names to cells) or a JSON document.
  How floats are printed to and parsed from text is not modelled: a table keeps the
  cells it was written with.
\<close>

datatype jval = JStr string | JCoords "(string \<times> pyfloat list) list"

datatype sidecar = TsvFile "(string \<times> pyval list) list" | JsonFile "(string \<times> jval) list"

text \<open>One constructor for each \<^verbatim>\<open>warn(...)\<close> of the module, with what its message names.\<close>

datatype warning =
    NanChannels "string list"
      \<comment> \<open>There are channels without locations (n/a) that are not marked as bad\<close>
  | DigFramesDiffer
      \<comment> \<open>Not all digpoints have the same coordinate frame. Skipping electrodes.tsv writing...\<close>
  | IeegFrameMissing bids_path
      \<comment> \<open>Coordinate frame of iEEG coords missing/unknown. Skipping reading in of montage...\<close>
  | SkippingEEG
      \<comment> \<open>Skipping EEG electrodes.tsv... Setting montage not possible if anatomical landmarks
          (NAS, LPA, RPA) are missing, and coord\_frame is not 'head'.\<close>
  | MegFrameNotAccepted
      \<comment> \<open>MEG Coordinate frame is not accepted BIDS keyword.\<close>
  | MegFrameOther
      \<comment> \<open>Coordinate frame of MEG data can't be determined when 'other'.\<close>
  | IeegFrameNotAccepted
      \<comment> \<open>iEEG Coordinate frame is not accepted BIDS keyword.\<close>
  | IeegFramePixels
      \<comment> \<open>Coordinate frame of iEEG data in pixels does not get read in by mne-python.\<close>
  | DefaultingToUnknown string
      \<comment> \<open>Defaulting coordinate frame to unknown from coordinate system input\<close>
  | EegFrameNotAccepted
      \<comment> \<open>EEG Coordinate frame is not accepted BIDS keyword.\<close>
  | UnitNotAccepted bids_path
      \<comment> \<open>Coordinate unit is not an accepted BIDS unit. Skipping electrodes.tsv reading...\<close>

record state =
  fs :: "bids_path \<Rightarrow> sidecar option"
  warnings :: "warning list"

definition warn :: "warning \<Rightarrow> state \<Rightarrow> state" where
  "warn w st = st\<lparr>warnings := warnings st @ [w]\<rparr>"

text \<open>
  What the module imports and the sources do not hold: the tables of
  \<^verbatim>\<open>mne_bids.config\<close>, Python's \<^verbatim>\<open>float()\<close> on a string (\<open>None\<close> where it raises
  ValueError), Python's \<^verbatim>\<open>str.lower()\<close> and \<^verbatim>\<open>mne.utils._check_ch_locs\<close> on one
  channel. They are parameters of every function below.
\<close>

record env =
  BIDS_IEEG_COORDINATE_FRAMES :: "string list"
  BIDS_MEG_COORDINATE_FRAMES :: "string list"
  BIDS_EEG_COORDINATE_FRAMES :: "string list"
  BIDS_COORDINATE_UNITS :: "string list"
  MNE_TO_BIDS_FRAMES :: "(string \<times> string) list"
  BIDS_TO_MNE_FRAMES :: "(string \<times> string) list"
  MNE_FRAME_TO_STR :: "(int \<times> string) list"
  COORD_FRAME_DESCRIPTIONS :: "(string \<times> string) list"
  py_float :: "string \<Rightarrow> pyfloat option"
  str_lower :: "string \<Rightarrow> string"
  check_ch_locs :: "channel \<Rightarrow> bool"

section \<open>The collaborators, from the spec\<close>

text \<open>
  Modelled from the spec: \<^verbatim>\<open>_from_tsv\<close> of \<^verbatim>\<open>mne_bids.tsv_handler\<close> is missing. The
  spec: "tabular read(path) \<rightarrow> ordered column mapping".
\<close>

definition from_tsv :: "bids_path \<Rightarrow> state \<Rightarrow> error + (string \<times> pyval list) list" where
  "from_tsv fname st =
     (case fs st fname of
        None \<Rightarrow> Inl FileNotFoundError
      | Some (TsvFile d) \<Rightarrow> Inr d
      | Some (JsonFile _) \<Rightarrow> Inl ValueError)"

text \<open>
  Modelled from the spec: \<^verbatim>\<open>_write_tsv\<close> and \<^verbatim>\<open>_write_json\<close> of \<^verbatim>\<open>mne_bids.utils\<close>
  are missing. The spec: "write(path, column mapping, overwrite) -- fails if file exists
  and overwrite is false", and "each sidecar file is written atomically as a whole
  document".
\<close>

definition write_tsv ::
  "bids_path \<Rightarrow> (string \<times> pyval list) list \<Rightarrow> bool \<Rightarrow> state \<Rightarrow> (error + unit) \<times> state" where
  "write_tsv fname data overwrite st =
     (if fs st fname \<noteq> None \<and> \<not> overwrite then (Inl FileExistsError, st)
      else (Inr (), st\<lparr>fs := (fs st)(fname \<mapsto> TsvFile data)\<rparr>))"

definition write_json ::
  "bids_path \<Rightarrow> (string \<times> jval) list \<Rightarrow> bool \<Rightarrow> state \<Rightarrow> (error + unit) \<times> state" where
  "write_json fname doc overwrite st =
     (if fs st fname \<noteq> None \<and> \<not> overwrite then (Inl FileExistsError, st)
      else (Inr (), st\<lparr>fs := (fs st)(fname \<mapsto> JsonFile doc)\<rparr>))"

text \<open>
  Modelled from the spec: \<^verbatim>\<open>_scale_coord_to_meters\<close> of \<^verbatim>\<open>mne_bids.utils\<close> is missing.
  The spec: "for inputs declared in centimeters/millimeters, reader output coordinates
  equal input divided by 100/1000 respectively (converted to meters)".
\<close>

definition scale_coord_to_meters :: "coord list \<Rightarrow> jval \<Rightarrow> coord list" where
  "scale_coord_to_meters locs unit_name =
     (if unit_name = JStr ''cm''
      then map (\<lambda>(x, y, z). (fdiv x 100, fdiv y 100, fdiv z 100)) locs
      else if unit_name = JStr ''mm''
      then map (\<lambda>(x, y, z). (fdiv x 1000, fdiv y 1000, fdiv z 1000)) locs
      else locs)"

text \<open>
  Modelled from the spec: \<^verbatim>\<open>_extract_landmarks\<close> of \<^verbatim>\<open>mne_bids.utils\<close> is missing. The
  spec: "pulls named anatomical landmarks [...] out of a recording's internal
  digitized-point list, producing a mapping from point-label to 3D coordinate", where
  "landmark labels come from a fixed 3-element controlled vocabulary" (NAS, LPA, RPA).
  Of several landmark points with one identifier the last one counts.
\<close>

definition landmark_entry :: "digpoint list \<Rightarrow> string \<Rightarrow> int \<Rightarrow> (string \<times> pyfloat list) list" where
  "landmark_entry dg label i =
     (case find (\<lambda>d. kind d = FIFFV_POINT_CARDINAL \<and> ident d = i) (rev dg) of
        None \<Rightarrow> []
      | Some d \<Rightarrow> (case r d of (x, y, z) \<Rightarrow> [(label, [x, y, z])]))"

definition extract_landmarks :: "digpoint list \<Rightarrow> (string \<times> pyfloat list) list" where
  "extract_landmarks dg =
     landmark_entry dg ''NAS'' FIFFV_POINT_NASION
     @ landmark_entry dg ''LPA'' FIFFV_POINT_LPA
     @ landmark_entry dg ''RPA'' FIFFV_POINT_RPA"

text \<open>Whether the digitized points hold the landmark with the given identifier.\<close>

definition has_landmark :: "digpoint list \<Rightarrow> int \<Rightarrow> bool" where
  "has_landmark dg i = list_ex (\<lambda>d. kind d = FIFFV_POINT_CARDINAL \<and> ident d = i) dg"

text \<open>
  Modelled from the spec: \<^verbatim>\<open>mne.channels.make_dig_montage\<close> and \<^verbatim>\<open>raw.set_montage\<close>
  belong to the recording object, which the spec gives as able to "read/write a
  positioned-channel overlay": the montage is the channel positions with their frame, and
  attaching it replaces the recording's montage.
\<close>

definition make_dig_montage :: "(string \<times> coord) list \<Rightarrow> string \<Rightarrow> montage" where
  "make_dig_montage pos fr = \<lparr>ch_pos = pos, frame = fr\<rparr>"

definition set_montage :: "montage \<Rightarrow> raw \<Rightarrow> raw" where
  "set_montage m rw = rw\<lparr>montage := Some m\<rparr>"

section \<open>Reading \<^verbatim>\<open>electrodes.tsv\<close>\<close>

text \<open>
  The name check of \<^verbatim>\<open>_handle_electrodes_reading\<close>. \<^verbatim>\<open>ch_names_raw[-1]\<close> raises
  IndexError on a recording without channels.
\<close>

definition check_ch_names :: "string list \<Rightarrow> pyval list \<Rightarrow> error + unit" where
  "check_ch_names ch_names_raw ch_names_tsv =
     (if map PStr ch_names_raw \<noteq> ch_names_tsv then
        (if ch_names_raw = [] then Inl IndexError
         else if \<not> (last ch_names_raw = ''STI 014''
                    \<and> map PStr (butlast ch_names_raw) = ch_names_tsv)
         then Inl RuntimeError
         else Inr ())
      else Inr ())"

definition float_or_nan :: "env \<Rightarrow> pyval \<Rightarrow> error + pyval" where
  "float_or_nan ev val =
     (case val of
        PStr s \<Rightarrow>
          (if s = ''n/a'' then Inr (PFloat NaN)
           else (case py_float ev s of None \<Rightarrow> Inl ValueError | Some f \<Rightarrow> Inr (PFloat f)))
      | PFloat f \<Rightarrow> Inr (PFloat f))"

text \<open>
  \<^verbatim>\<open>[x for i, x in enumerate(ch_names_raw) if electrodes_dict['x'][i] != "n/a"]\<close>:
  the column is read at every index of the recording's channels.
\<close>

fun filter_na :: "string list \<Rightarrow> pyval list \<Rightarrow> error + string list" where
  "filter_na [] xs = Inr []"
| "filter_na (n # ns) [] = Inl IndexError"
| "filter_na (n # ns) (x # xs) =
     (case filter_na ns xs of
        Inl e \<Rightarrow> Inl e
      | Inr rest \<Rightarrow> Inr (if x \<noteq> PStr ''n/a'' then n # rest else rest))"

text \<open>
  \<^verbatim>\<open>np.c_[x, y, z]\<close>: the rows of the three columns, ValueError when their lengths
  differ. After \<open>float_or_nan\<close> every cell is a float.
\<close>

fun the_float :: "pyval \<Rightarrow> pyfloat" where
  "the_float (PFloat f) = f"
| "the_float (PStr _) = NaN"

definition rows :: "pyval list \<Rightarrow> pyval list \<Rightarrow> pyval list \<Rightarrow> coord list" where
  "rows xs ys zs = zip (map the_float xs) (zip (map the_float ys) (map the_float zs))"

definition np_c :: "pyval list \<Rightarrow> pyval list \<Rightarrow> pyval list \<Rightarrow> error + coord list" where
  "np_c xs ys zs =
     (if length xs = length ys \<and> length ys = length zs then Inr (rows xs ys zs)
      else Inl ValueError)"

definition any_isnan :: "coord \<Rightarrow> bool" where
  "any_isnan c = (case c of (x, y, z) \<Rightarrow> isnan x \<or> isnan y \<or> isnan z)"

definition nan_chs_of :: "string list \<Rightarrow> (string \<times> coord) list \<Rightarrow> string list" where
  "nan_chs_of bad ps = map fst (filter (\<lambda>(ch, c). any_isnan c \<and> ch \<notin> set bad) ps)"

definition handle_electrodes_reading ::
  "env \<Rightarrow> bids_path \<Rightarrow> string \<Rightarrow> jval \<Rightarrow> raw \<Rightarrow> bool \<Rightarrow> state \<Rightarrow> (error + raw) \<times> state" where
  "handle_electrodes_reading ev electrodes_fname coord_frame_name coord_unit rw verbose st =
     (case from_tsv electrodes_fname st of
        Inl e \<Rightarrow> (Inl e, st)
      | Inr electrodes_dict \<Rightarrow>
     (case dict_getitem electrodes_dict ''name'' of
        Inl e \<Rightarrow> (Inl e, st)
      | Inr ch_names_tsv \<Rightarrow>
     (case check_ch_names (ch_names rw) ch_names_tsv of
        Inl e \<Rightarrow> (Inl e, st)
      | Inr _ \<Rightarrow>
     (case dict_getitem electrodes_dict ''x'' of Inl e \<Rightarrow> (Inl e, st) | Inr x0 \<Rightarrow>
     (case map_result (float_or_nan ev) x0 of Inl e \<Rightarrow> (Inl e, st) | Inr xs \<Rightarrow>
     (case dict_getitem electrodes_dict ''y'' of Inl e \<Rightarrow> (Inl e, st) | Inr y0 \<Rightarrow>
     (case map_result (float_or_nan ev) y0 of Inl e \<Rightarrow> (Inl e, st) | Inr ys \<Rightarrow>
     (case dict_getitem electrodes_dict ''z'' of Inl e \<Rightarrow> (Inl e, st) | Inr z0 \<Rightarrow>
     (case map_result (float_or_nan ev) z0 of Inl e \<Rightarrow> (Inl e, st) | Inr zs \<Rightarrow>
     (case filter_na (ch_names rw) xs of
        Inl e \<Rightarrow> (Inl e, st)
      | Inr ch_names_raw \<Rightarrow>
     (case np_c xs ys zs of
        Inl e \<Rightarrow> (Inl e, st)
      | Inr ch_locs \<Rightarrow>
          (let nan_chs = nan_chs_of (bads rw) (zip ch_names_raw ch_locs);
               st' = (if length nan_chs > 0 then warn (NanChannels nan_chs) st else st);
               ch_locs' = scale_coord_to_meters ch_locs coord_unit;
               pos = dict_of (zip ch_names_raw ch_locs');
               m = make_dig_montage pos coord_frame_name
           in (Inr (set_montage m rw), st')))))))))))))"

section \<open>Reading \<^verbatim>\<open>coordsystem.json\<close>\<close>

definition json_load :: "bids_path \<Rightarrow> state \<Rightarrow> error + (string \<times> jval) list" where
  "json_load fname st =
     (case fs st fname of
        None \<Rightarrow> Inl FileNotFoundError
      | Some (JsonFile doc) \<Rightarrow> Inr doc
      | Some (TsvFile _) \<Rightarrow> Inl JSONDecodeError)"

text \<open>\<^verbatim>\<open>doc[k1].lower(), doc[k2]\<close>: \<^verbatim>\<open>.lower()\<close> exists on strings only.\<close>

definition frame_and_unit ::
  "env \<Rightarrow> (string \<times> jval) list \<Rightarrow> string \<Rightarrow> string \<Rightarrow> error + (string \<times> jval)" where
  "frame_and_unit ev doc k1 k2 =
     (case dict_getitem doc k1 of
        Inl e \<Rightarrow> Inl e
      | Inr (JCoords _) \<Rightarrow> Inl AttributeError
      | Inr (JStr s) \<Rightarrow>
          (case dict_getitem doc k2 of
             Inl e \<Rightarrow> Inl e
           | Inr u \<Rightarrow> Inr (str_lower ev s, u)))"

text \<open>
  With a datatype other than the three, no branch binds \<^verbatim>\<open>coord_frame\<close> and the
  function raises when it reads it.
\<close>

definition handle_coordsystem_reading ::
  "env \<Rightarrow> bids_path \<Rightarrow> string \<Rightarrow> bool \<Rightarrow> state \<Rightarrow> error + (string \<times> jval)" where
  "handle_coordsystem_reading ev coordsystem_fpath dtype verbose st =
     (case json_load coordsystem_fpath st of
        Inl e \<Rightarrow> Inl e
      | Inr coordsystem_doc \<Rightarrow>
          (if dtype = ''meg''
           then frame_and_unit ev coordsystem_doc ''MEGCoordinateSystem'' ''MEGCoordinateUnits''
           else if dtype = ''eeg''
           then frame_and_unit ev coordsystem_doc ''EEGCoordinateSystem'' ''EEGCoordinateUnits''
           else if dtype = ''ieeg''
           then frame_and_unit ev coordsystem_doc ''iEEGCoordinateSystem'' ''iEEGCoordinateUnits''
           else Inl UnboundLocalError))"

section \<open>The read orchestration\<close>

text \<open>
  The per-modality block of \<^verbatim>\<open>_read_dig_bids\<close>: from the descriptor's frame name and
  the space entity of the path to the frame handed to the montage, \<open>None\<close> when it is
  not resolved.
\<close>

definition resolve_frame ::
  "env \<Rightarrow> string \<Rightarrow> string \<Rightarrow> string \<Rightarrow> state \<Rightarrow> string option \<times> state" where
  "resolve_frame ev dtype coord_frame_name space_tag st =
     (if dtype = ''meg'' then
        (if coord_frame_name \<notin> set (BIDS_MEG_COORDINATE_FRAMES ev)
         then (None, warn MegFrameNotAccepted st)
         else if coord_frame_name = ''other''
         then (None, warn MegFrameOther st)
         else (map_of (BIDS_TO_MNE_FRAMES ev) coord_frame_name, st))
      else if dtype = ''ieeg'' then
        (if coord_frame_name \<notin> set (BIDS_IEEG_COORDINATE_FRAMES ev)
         then (None, warn IeegFrameNotAccepted st)
         else if coord_frame_name = ''pixels''
         then (None, warn IeegFramePixels st)
         else if coord_frame_name = ''acpc''
         then (map_of (BIDS_TO_MNE_FRAMES ev) coord_frame_name, st)
         else if coord_frame_name = ''other''
         then (map_of (BIDS_TO_MNE_FRAMES ev) space_tag,
               if map_of (BIDS_TO_MNE_FRAMES ev) space_tag = None
               then warn (DefaultingToUnknown coord_frame_name) st else st)
         else (Some coord_frame_name, st))
      else if dtype = ''eeg'' then
        (if coord_frame_name \<notin> set (BIDS_EEG_COORDINATE_FRAMES ev)
         then (None, warn EegFrameNotAccepted st)
         else (map_of (BIDS_TO_MNE_FRAMES ev) coord_frame_name, st))
      else (Some coord_frame_name, st))"

text \<open>\<^verbatim>\<open>coord_unit in BIDS_COORDINATE_UNITS\<close>: a value that is no string is in no list of strings.\<close>

definition unit_accepted :: "env \<Rightarrow> jval \<Rightarrow> bool" where
  "unit_accepted ev coord_unit =
     (case coord_unit of JStr u \<Rightarrow> u \<in> set (BIDS_COORDINATE_UNITS ev) | JCoords _ \<Rightarrow> False)"

definition check_units :: "env \<Rightarrow> bids_path \<Rightarrow> jval \<Rightarrow> string option \<times> state \<Rightarrow> string option \<times> state" where
  "check_units ev electrodes_fpath coord_unit fr_st =
     (if \<not> unit_accepted ev coord_unit
      then (None, warn (UnitNotAccepted electrodes_fpath) (snd fr_st))
      else fr_st)"

text \<open>The space entity of a path, \<^verbatim>\<open>''\<close> when it has none, in lower case.\<close>

definition space_of :: "env \<Rightarrow> bids_path \<Rightarrow> string" where
  "space_of ev fpath =
     str_lower ev (case space (get_entities_from_fname fpath) of None \<Rightarrow> [] | Some s \<Rightarrow> s)"

definition read_dig_bids ::
  "env \<Rightarrow> bids_path \<Rightarrow> bids_path \<Rightarrow> raw \<Rightarrow> string \<Rightarrow> bool \<Rightarrow> state \<Rightarrow> (error + raw) \<times> state" where
  "read_dig_bids ev electrodes_fpath coordsystem_fpath rw dtype verbose st =
     (let space_tag = space_of ev electrodes_fpath
      in case handle_coordsystem_reading ev coordsystem_fpath dtype verbose st of
           Inl e \<Rightarrow> (Inl e, st)
         | Inr (coord_frame_name, coord_unit) \<Rightarrow>
             (case check_units ev electrodes_fpath coord_unit
                     (resolve_frame ev dtype coord_frame_name space_tag st) of
                (None, st') \<Rightarrow> (Inr rw, st')
              | (Some fr, st') \<Rightarrow>
                  handle_electrodes_reading ev electrodes_fpath fr coord_unit rw verbose st'))"

section \<open>Writing the sidecars\<close>

text \<open>
  \<^verbatim>\<open>_get_impedances\<close>: a channel without an entry gets \<^verbatim>\<open>'n/a' * 1\<close>, which is
  \<^verbatim>\<open>'n/a'\<close>; an entry is scaled by 1 for kOhm, by 0.001 for Ohm and by NaN otherwise.
\<close>

definition impedance_cell :: "(string \<times> impedance) list \<Rightarrow> string \<Rightarrow> pyval" where
  "impedance_cell imps name =
     (case map_of imps name of
        None \<Rightarrow> PStr ''n/a''
      | Some i \<Rightarrow>
          PFloat (fmul (imp i)
            (if imp_unit i = ''kOhm'' then Fin 1
             else if imp_unit i = ''Ohm'' then Fin (1 / 1000)
             else NaN)))"

definition get_impedances :: "raw \<Rightarrow> string list \<Rightarrow> pyval list" where
  "get_impedances rw names =
     (case impedances rw of
        None \<Rightarrow> replicate (length names) (PStr ''n/a'')
      | Some imps \<Rightarrow> map (impedance_cell imps) names)"

definition ch_cells :: "env \<Rightarrow> channel \<Rightarrow> pyval \<times> pyval \<times> pyval" where
  "ch_cells ev ch =
     (if check_ch_locs ev ch
      then (case loc ch of (x, y, z) \<Rightarrow> (PFloat x, PFloat y, PFloat z))
      else (PStr ''n/a'', PStr ''n/a'', PStr ''n/a''))"


definition electrodes_data :: "env \<Rightarrow> raw \<Rightarrow> string \<Rightarrow> error + (string \<times> pyval list) list" where
  "electrodes_data ev rw dtype =
     (let cells = map (ch_cells ev) (chs rw);
          x = map fst cells;
          y = map (fst \<circ> snd) cells;
          z = map (snd \<circ> snd) cells;
          names = map ch_name (chs rw);
          add_impedance = (\<lambda>data.
            case impedances rw of
              None \<Rightarrow> data
            | Some _ \<Rightarrow> dict_set ''impedance'' (get_impedances rw names) data)
      in if dtype = ''ieeg'' then
           Inr (add_impedance
                  [(''name'', map PStr names), (''x'', x), (''y'', y), (''z'', z),
                   (''size'', replicate (length names) (PStr ''n/a''))])
         else if dtype = ''eeg'' then
           Inr (add_impedance [(''name'', map PStr names), (''x'', x), (''y'', y), (''z'', z)])
         else Inl RuntimeError)"

definition electrodes_tsv ::
  "env \<Rightarrow> raw \<Rightarrow> bids_path \<Rightarrow> string \<Rightarrow> bool \<Rightarrow> bool \<Rightarrow> state \<Rightarrow> (error + unit) \<times> state" where
  "electrodes_tsv ev rw fname dtype overwrite verbose st =
     (case electrodes_data ev rw dtype of
        Inl e \<Rightarrow> (Inl e, st)
      | Inr data \<Rightarrow> write_tsv fname data overwrite st)"

text \<open>
  The head-localization coils of \<^verbatim>\<open>_coordsystem_json\<close>: the points of kind HPI by
  identifier, each stored under \<^verbatim>\<open>'coil%d' % ident\<close>.
\<close>

definition hpi_points :: "digpoint list \<Rightarrow> (int \<times> digpoint) list" where
  "hpi_points dg = dict_of (map (\<lambda>d. (ident d, d)) (filter (\<lambda>d. kind d = FIFFV_POINT_HPI) dg))"

definition add_coils ::
  "(int \<times> digpoint) list \<Rightarrow> (string \<times> pyfloat list) list \<Rightarrow> (string \<times> pyfloat list) list" where
  "add_coils hpi coords =
     foldl (\<lambda>c (i, d). dict_set (''coil'' @ string_of_int i) (case r d of (x, y, z) \<Rightarrow> [x, y, z]) c)
       coords hpi"

text \<open>\<^verbatim>\<open>len(set(frames)) > 1\<close>\<close>

definition frames_diverge :: "digpoint list \<Rightarrow> bool" where
  "frames_diverge dg = (length (remdups (map coord_frame dg)) > 1)"

definition coordsystem_json ::
  "env \<Rightarrow> raw \<Rightarrow> string \<Rightarrow> string \<Rightarrow> string \<Rightarrow> bids_path \<Rightarrow> string \<Rightarrow> bool \<Rightarrow> bool \<Rightarrow> state
     \<Rightarrow> (error + unit) \<times> state" where
  "coordsystem_json ev rw unit_name orient coordsystem_name fname dtype overwrite verbose st =
     (let dg = (case dig rw of None \<Rightarrow> [] | Some d \<Rightarrow> d);
          coords = add_coils (hpi_points dg) (extract_landmarks dg)
      in if frames_diverge dg then (Inl ValueError, st)
         else
           (let coordsystem_desc =
                  (case map_of (COORD_FRAME_DESCRIPTIONS ev) coordsystem_name of
                     None \<Rightarrow> ''n/a''
                   | Some d \<Rightarrow> d)
            in if dtype = ''meg'' then
                 write_json fname
                   [(''MEGCoordinateSystem'', JStr coordsystem_name),
                    (''MEGCoordinateUnits'', JStr unit_name),
                    (''MEGCoordinateSystemDescription'', JStr coordsystem_desc),
                    (''HeadCoilCoordinates'', JCoords (add_coils (hpi_points dg) coords)),
                    (''HeadCoilCoordinateSystem'', JStr orient),
                    (''HeadCoilCoordinateUnits'', JStr unit_name)]
                   overwrite st
               else if dtype = ''eeg'' then
                 write_json fname
                   [(''EEGCoordinateSystem'', JStr coordsystem_name),
                    (''EEGCoordinateUnits'', JStr unit_name),
                    (''EEGCoordinateSystemDescription'', JStr coordsystem_desc),
                    (''AnatomicalLandmarkCoordinates'', JCoords coords),
                    (''AnatomicalLandmarkCoordinateSystem'', JStr coordsystem_name),
                    (''AnatomicalLandmarkCoordinateUnits'', JStr unit_name)]
                   overwrite st
               else if dtype = ''ieeg'' then
                 write_json fname
                   [(''iEEGCoordinateSystem'', JStr coordsystem_name),
                    (''iEEGCoordinateSystemDescription'', JStr coordsystem_desc),
                    (''iEEGCoordinateUnits'', JStr unit_name)]
                   overwrite st
               else (Inl UnboundLocalError, st)))"

section \<open>The write orchestration\<close>

text \<open>The two writes in sequence: an exception of the first one skips the second.\<close>

definition write_both ::
  "env \<Rightarrow> raw \<Rightarrow> bids_path \<Rightarrow> bids_path \<Rightarrow> string \<Rightarrow> string \<Rightarrow> string \<Rightarrow> string \<Rightarrow> bool \<Rightarrow> bool
     \<Rightarrow> state \<Rightarrow> (error + unit) \<times> state" where
  "write_both ev rw electrodes_path coordsystem_path unit_name orient coordsystem_name dtype
       overwrite verbose st =
     (case electrodes_tsv ev rw electrodes_path dtype overwrite verbose st of
        (Inl e, st1) \<Rightarrow> (Inl e, st1)
      | (Inr _, st1) \<Rightarrow>
          coordsystem_json ev rw unit_name orient coordsystem_name coordsystem_path dtype
            overwrite verbose st1)"

text \<open>
  \<^verbatim>\<open>raw.info['dig'][0]\<close> raises TypeError when the list is \<^verbatim>\<open>None\<close> and IndexError
  when it is empty.
\<close>

definition write_dig_bids ::
  "env \<Rightarrow> bids_path \<Rightarrow> bids_path \<Rightarrow> string \<Rightarrow> raw \<Rightarrow> string \<Rightarrow> bool \<Rightarrow> bool \<Rightarrow> state
     \<Rightarrow> (error + unit) \<times> state" where
  "write_dig_bids ev electrodes_path coordsystem_path rt rw dtype overwrite verbose st =
     (let unit_name = ''m'';
          params = get_entities_from_fname electrodes_path;
          subject_id = subject params;
          session_id = session params;
          acq = acquisition params
      in case dig rw of
           None \<Rightarrow> (Inl TypeError, st)
         | Some [] \<Rightarrow> (Inl IndexError, st)
         | Some (digpoint # rest) \<Rightarrow>
             if list_ex (\<lambda>d. coord_frame digpoint \<noteq> coord_frame d) (digpoint # rest)
             then (Inr (), warn DigFramesDiffer st)
             else
               (let coord_frame_int = coord_frame digpoint;
                    mne_coord_frame = map_of (MNE_FRAME_TO_STR ev) coord_frame_int;
                    coord_frame_name =
                      (case mne_coord_frame of
                         None \<Rightarrow> None
                       | Some f \<Rightarrow> map_of (MNE_TO_BIDS_FRAMES ev) f)
                in if dtype = ''ieeg'' then
                     (case coord_frame_name of
                        Some cf \<Rightarrow>
                          (if cf \<notin> set (BIDS_IEEG_COORDINATE_FRAMES ev)
                           then write_both ev rw
                                  (BIDSPath subject_id session_id acq (Some cf)
                                     ''electrodes'' ''.tsv'' rt)
                                  (BIDSPath subject_id session_id acq (Some cf)
                                     ''coordsystem'' ''.json'' rt)
                                  unit_name ''n/a'' ''Other'' dtype overwrite verbose st
                           else write_both ev rw electrodes_path coordsystem_path
                                  unit_name ''n/a'' cf dtype overwrite verbose st)
                      | None \<Rightarrow> (Inr (), warn (IeegFrameMissing electrodes_path) st))
                   else if dtype = ''eeg'' then
                     (let coords = extract_landmarks (digpoint # rest);
                          landmarks = (set [''RPA'', ''NAS'', ''LPA''] = set (map fst coords))
                      in if coord_frame_int = FIFFV_COORD_HEAD \<and> landmarks
                         then write_both ev rw electrodes_path coordsystem_path
                                ''m'' ''RAS'' ''CapTrak'' dtype overwrite verbose st
                         else (Inr (), warn SkippingEEG st))
                   else (Inr (), st)))"

section \<open>A sample setting\<close>

text \<open>
  One setting of the parameters and a few small recordings, paths and directory states,
  on which the functions are run in the concrete instances below. The tables follow the
  vocabulary the module and its tests use: an iEEG montage in the \<^verbatim>\<open>mri\<close> frame is
  written under \<^verbatim>\<open>space-mri\<close>, and EEG positions in the head frame are CapTrak.
\<close>

definition sample_float :: "string \<Rightarrow> pyfloat option" where
  "sample_float s =
     (if s = ''0.5'' then Some (Fin (1 / 2))
      else if s = ''12'' then Some (Fin 12)
      else if s = ''nan'' then Some NaN
      else None)"

definition sample_check_ch_locs :: "channel \<Rightarrow> bool" where
  "sample_check_ch_locs ch =
     (case loc ch of (x, y, z) \<Rightarrow>
        \<not> (x = Fin 0 \<and> y = Fin 0 \<and> z = Fin 0) \<and> \<not> (isnan x \<and> isnan y \<and> isnan z))"

definition sample_env :: env where
  "sample_env =
     \<lparr>BIDS_IEEG_COORDINATE_FRAMES = [''acpc'', ''pixels'', ''other''],
      BIDS_MEG_COORDINATE_FRAMES =
        [''ctf'', ''4dbti'', ''kityokogawa'', ''elektaneuromag'', ''chietiitab'', ''other''],
      BIDS_EEG_COORDINATE_FRAMES = [''captrak''],
      BIDS_COORDINATE_UNITS = [''m'', ''cm'', ''mm''],
      MNE_TO_BIDS_FRAMES =
        [(''ctf_head'', ''ctf''), (''head'', ''captrak''), (''ras'', ''acpc''), (''mri'', ''mri'')],
      BIDS_TO_MNE_FRAMES =
        [(''ctf'', ''ctf_head''), (''elektaneuromag'', ''head''), (''captrak'', ''head''),
         (''acpc'', ''ras''), (''mri'', ''mri'')],
      MNE_FRAME_TO_STR = [(0, ''unknown''), (1, ''meg''), (4, ''head''), (5, ''mri''), (2002, ''ras'')],
      COORD_FRAME_DESCRIPTIONS = [(''captrak'', ''RAS orientation'')],
      py_float = sample_float,
      str_lower = lower,
      check_ch_locs = sample_check_ch_locs\<rparr>"

definition sample_electrodes_path :: bids_path where
  "sample_electrodes_path = BIDSPath (Some ''01'') (Some ''01'') None None ''electrodes'' ''.tsv'' ''bids''"

definition sample_coordsystem_path :: bids_path where
  "sample_coordsystem_path = BIDSPath (Some ''01'') (Some ''01'') None None ''coordsystem'' ''.json'' ''bids''"

definition empty_state :: state where
  "empty_state = \<lparr>fs = Map.empty, warnings = []\<rparr>"

text \<open>A recording of the channels named, without positions, digitized points or bad channels.\<close>

definition sample_raw :: "string list \<Rightarrow> raw" where
  "sample_raw names =
     \<lparr>chs = map (\<lambda>n. \<lparr>ch_name = n, loc = (Fin 0, Fin 0, Fin 0)\<rparr>) names,
      bads = [], dig = None, impedances = None, montage = None\<rparr>"

text \<open>A directory holding one position table with the columns name, x, y and z.\<close>

definition tsv_state :: "string list \<Rightarrow> string list \<Rightarrow> string list \<Rightarrow> string list \<Rightarrow> state" where
  "tsv_state names xs ys zs =
     \<lparr>fs = [sample_electrodes_path \<mapsto>
              TsvFile [(''name'', map PStr names), (''x'', map PStr xs), (''y'', map PStr ys),
                       (''z'', map PStr zs)]],
      warnings = []\<rparr>"

text \<open>
  A directory holding the position table of the channels Fz and Cz, the second one
  without a position, and a descriptor with the given fields.
\<close>

definition sidecars_state :: "(string \<times> jval) list \<Rightarrow> state" where
  "sidecars_state doc =
     \<lparr>fs = [sample_electrodes_path \<mapsto>
              TsvFile [(''name'', map PStr [''Fz'', ''Cz'']), (''x'', map PStr [''0.5'', ''n/a'']),
                       (''y'', map PStr [''0.5'', ''n/a'']), (''z'', map PStr [''0.5'', ''n/a''])],
            sample_coordsystem_path \<mapsto> JsonFile doc],
      warnings = []\<rparr>"

text \<open>
  A digitized point of the given kind, identifier and frame, at the origin, and the
  recording of the channels Fz and Cz that carries the given points.
\<close>

definition sample_point :: "int \<Rightarrow> int \<Rightarrow> int \<Rightarrow> digpoint" where
  "sample_point k i f = \<lparr>kind = k, ident = i, r = (Fin 0, Fin 0, Fin 0), coord_frame = f\<rparr>"

definition dig_raw :: "digpoint list \<Rightarrow> raw" where
  "dig_raw points = (sample_raw [''Fz'', ''Cz''])\<lparr>dig := Some points\<rparr>"



section \<open>Lists, dictionaries and conversions\<close>

lemma map_result_length: "map_result f xs = Inr ys \<Longrightarrow> length ys = length xs"
  by (induction xs arbitrary: ys) (auto split: sum.splits)

lemma map_result_nth:
  "map_result f xs = Inr ys \<Longrightarrow> i < length xs \<Longrightarrow> f (xs ! i) = Inr (ys ! i)"
proof (induction xs arbitrary: ys i)
  case Nil
  then show ?case by simp
next
  case (Cons x xs)
  then show ?case by (cases i) (auto split: sum.splits)
qed

lemma float_or_nan_float: "float_or_nan ev v = Inr w \<Longrightarrow> \<exists>f. w = PFloat f"
  by (auto simp: float_or_nan_def split: pyval.splits if_splits option.splits)

lemma map_result_floats:
  "map_result (float_or_nan ev) xs = Inr ys \<Longrightarrow> \<forall>y\<in>set ys. \<exists>f. y = PFloat f"
proof (induction xs arbitrary: ys)
  case Nil
  then show ?case by simp
next
  case (Cons x xs)
  then show ?case by (auto split: sum.splits dest: float_or_nan_float)
qed

lemma filter_na_floats:
  "\<forall>x\<in>set xs. \<exists>f. x = PFloat f \<Longrightarrow> length ns \<le> length xs \<Longrightarrow> filter_na ns xs = Inr ns"
  by (induction ns xs rule: filter_na.induct) auto

lemma filter_na_short: "length xs < length ns \<Longrightarrow> filter_na ns xs = Inl IndexError"
  by (induction ns xs rule: filter_na.induct) auto

lemma filter_na_keeps:
  "\<forall>x\<in>set xs. \<exists>f. x = PFloat f \<Longrightarrow> filter_na ns xs = Inr ms \<Longrightarrow> ms = ns"
  by (induction ns xs arbitrary: ms rule: filter_na.induct) (auto split: sum.splits)

lemma dict_set_map_fst:
  "map fst (dict_set k v d) = (if k \<in> fst ` set d then map fst d else map fst d @ [k])"
  by (induction d) (fastforce simp: image_iff)+

lemma dict_set_keys: "fst ` set (dict_set k v d) = insert k (fst ` set d)"
proof -
  have "set (map fst (dict_set k v d)) = insert k (set (map fst d))"
    unfolding dict_set_map_fst by auto
  then show ?thesis by simp
qed

lemma foldl_dict_set_keys:
  "fst ` set (foldl (\<lambda>d (k, v). dict_set k v d) acc ps) = fst ` set acc \<union> fst ` set ps"
proof (induction ps arbitrary: acc)
  case Nil
  then show ?case by simp
next
  case (Cons p ps)
  obtain k v where p: "p = (k, v)" by (cases p)
  show ?case
    unfolding p using Cons.IH [of "dict_set k v acc"] dict_set_keys [of k v acc] by auto
qed

lemma dict_of_keys: "fst ` set (dict_of ps) = fst ` set ps"
  by (simp add: dict_of_def foldl_dict_set_keys)

lemma dict_set_fresh: "k \<notin> fst ` set d \<Longrightarrow> dict_set k v d = d @ [(k, v)]"
  by (induction d) auto

lemma foldl_dict_set_distinct:
  "distinct (map fst (acc @ ps)) \<Longrightarrow> foldl (\<lambda>d (k, v). dict_set k v d) acc ps = acc @ ps"
proof (induction ps arbitrary: acc)
  case Nil
  then show ?case by simp
next
  case (Cons p ps)
  obtain k v where p: "p = (k, v)" by (cases p)
  from Cons.prems have fresh: "k \<notin> fst ` set acc" by (auto simp: p)
  from Cons.prems have "distinct (map fst ((acc @ [(k, v)]) @ ps))" by (simp add: p)
  from Cons.IH [OF this] show ?case by (simp add: p dict_set_fresh [OF fresh])
qed

lemma dict_of_distinct: "distinct (map fst ps) \<Longrightarrow> dict_of ps = ps"
  using foldl_dict_set_distinct [of "[]" ps] by (simp add: dict_of_def)

lemma sample_names: "ch_names (sample_raw ns) = ns"
  by (simp add: ch_names_def sample_raw_def comp_def)

section \<open>The position table read against the recording\<close>

lemma handle_electrodes_reading_exact:
  assumes tsv: "fs st fname = Some (TsvFile d)"
    and names: "map_of d ''name'' = Some (map PStr (ch_names rw))"
    and x: "map_of d ''x'' = Some x0" "map_result (float_or_nan ev) x0 = Inr xs"
    and y: "map_of d ''y'' = Some y0" "map_result (float_or_nan ev) y0 = Inr ys"
    and z: "map_of d ''z'' = Some z0" "map_result (float_or_nan ev) z0 = Inr zs"
    and len: "length x0 = length (ch_names rw)" "length y0 = length (ch_names rw)"
      "length z0 = length (ch_names rw)"
  shows "handle_electrodes_reading ev fname fr u rw v st =
           (Inr (set_montage
                   (make_dig_montage
                      (dict_of (zip (ch_names rw)
                         (scale_coord_to_meters (rows xs ys zs) u))) fr) rw),
            if nan_chs_of (bads rw) (zip (ch_names rw) (rows xs ys zs)) = [] then st
            else warn (NanChannels (nan_chs_of (bads rw) (zip (ch_names rw) (rows xs ys zs)))) st)"
proof -
  have lx: "length xs = length (ch_names rw)"
    using map_result_length [OF x(2)] len by simp
  have ly: "length ys = length (ch_names rw)"
    using map_result_length [OF y(2)] len by simp
  have lz: "length zs = length (ch_names rw)"
    using map_result_length [OF z(2)] len by simp
  have flt: "filter_na (ch_names rw) xs = Inr (ch_names rw)"
    using filter_na_floats [OF map_result_floats [OF x(2)], of "ch_names rw"] lx by simp
  have c: "np_c xs ys zs = Inr (rows xs ys zs)"
    by (simp add: np_c_def rows_def lx ly lz)
  have chk: "check_ch_names (ch_names rw) (map PStr (ch_names rw)) = Inr ()"
    by (simp add: check_ch_names_def)
  show ?thesis
    by (simp add: handle_electrodes_reading_def from_tsv_def tsv dict_getitem_def names x y z
        chk flt c Let_def)
qed

lemma float_or_nan_err: "float_or_nan ev v = Inl e \<Longrightarrow> e = ValueError"
  by (auto simp: float_or_nan_def split: pyval.splits if_splits option.splits)

lemma map_result_float_err: "map_result (float_or_nan ev) xs = Inl e \<Longrightarrow> e = ValueError"
  by (induction xs) (auto split: sum.splits dest: float_or_nan_err)

lemma filter_na_err: "filter_na ns xs = Inl e \<Longrightarrow> e = IndexError"
  by (induction ns xs rule: filter_na.induct) (auto split: sum.splits)

lemma handle_electrodes_reading_no_RuntimeError:
  assumes "check_ch_names (ch_names rw) ts = Inr ()"
    and "fs st fname = Some (TsvFile d)" and "map_of d ''name'' = Some ts"
  shows "fst (handle_electrodes_reading ev fname fr u rw v st) \<noteq> Inl RuntimeError"
  using assms
  by (auto simp: handle_electrodes_reading_def from_tsv_def dict_getitem_def np_c_def Let_def
      split: sum.splits option.splits
      dest: map_result_float_err filter_na_err)

lemma handle_electrodes_reading_name_error:
  assumes "check_ch_names (ch_names rw) ts = Inl e"
    and "fs st fname = Some (TsvFile d)" and "map_of d ''name'' = Some ts"
  shows "handle_electrodes_reading ev fname fr u rw v st = (Inl e, st)"
  using assms
  by (simp add: handle_electrodes_reading_def from_tsv_def dict_getitem_def)

lemma nan_chs_of_iff:
  "c \<in> set (nan_chs_of bad ps) \<longleftrightarrow> (\<exists>p. (c, p) \<in> set ps \<and> any_isnan p \<and> c \<notin> set bad)"
  by (force simp: nan_chs_of_def)

lemma rows_length:
  "length xs = n \<Longrightarrow> length ys = n \<Longrightarrow> length zs = n \<Longrightarrow> length (rows xs ys zs) = n"
  by (simp add: rows_def)

lemma rows_nth:
  "i < length xs \<Longrightarrow> length ys = length xs \<Longrightarrow> length zs = length xs \<Longrightarrow>
   rows xs ys zs ! i = (the_float (xs ! i), the_float (ys ! i), the_float (zs ! i))"
  by (simp add: rows_def)

lemma fdiv_isnan: "isnan (fdiv x d) = isnan x"
  by (cases x) simp_all

lemma scale_length: "length (scale_coord_to_meters locs u) = length locs"
  by (simp add: scale_coord_to_meters_def)

lemma scale_any_isnan:
  "i < length locs \<Longrightarrow> any_isnan (scale_coord_to_meters locs u ! i) = any_isnan (locs ! i)"
  by (auto simp: scale_coord_to_meters_def any_isnan_def fdiv_isnan split: prod.splits)


lemma sample_bads: "bads (sample_raw ns\<lparr>bads := b\<rparr>) = b" "ch_names (sample_raw ns\<lparr>bads := b\<rparr>) = ns"
  by (simp_all add: ch_names_def sample_raw_def comp_def)

lemma sample_conversion:
  "map_result (float_or_nan sample_env) [PStr ''0.5'', PStr ''n/a''] = Inr [PFloat (Fin (1 / 2)), PFloat NaN]"
  by (simp add: float_or_nan_def sample_env_def sample_float_def)

lemma sample_table:
  "fs (tsv_state ns xs ys zs) sample_electrodes_path =
     Some (TsvFile [(''name'', map PStr ns), (''x'', map PStr xs), (''y'', map PStr ys),
                    (''z'', map PStr zs)])"
  by (simp add: tsv_state_def)


section \<open>The read orchestration by cases\<close>

lemma warn_fs [simp]: "fs (warn w st) = fs st"
  by (simp add: warn_def)

lemma warn_warnings [simp]: "warnings (warn w st) = warnings st @ [w]"
  by (simp add: warn_def)

lemma resolve_frame_fs: "fs (snd (resolve_frame ev dtype fr sp st)) = fs st"
  by (simp add: resolve_frame_def)

lemma resolve_frame_warnings:
  "\<exists>ws. warnings (snd (resolve_frame ev dtype fr sp st)) = warnings st @ ws"
  by (simp add: resolve_frame_def)

lemma read_dig_bids_cases:
  assumes "handle_coordsystem_reading ev cp dtype v st = Inr (fr, u)"
  shows "read_dig_bids ev ep cp rw dtype v st =
           (case resolve_frame ev dtype fr (space_of ev ep) st of
              (Some f, st') \<Rightarrow>
                if unit_accepted ev u then handle_electrodes_reading ev ep f u rw v st'
                else (Inr rw, warn (UnitNotAccepted ep) st')
            | (None, st') \<Rightarrow>
                (Inr rw, if unit_accepted ev u then st' else warn (UnitNotAccepted ep) st'))"
  using assms
  by (simp add: read_dig_bids_def check_units_def Let_def
      split: prod.splits option.splits)


lemma sample_paths_differ: "sample_electrodes_path \<noteq> sample_coordsystem_path"
  by (simp add: sample_electrodes_path_def sample_coordsystem_path_def BIDSPath_def)

lemma sample_space: "space_of sample_env sample_electrodes_path = []"
  by (simp add: space_of_def sample_electrodes_path_def BIDSPath_def get_entities_from_fname_def
      sample_env_def lower_def)

lemma lower_CapTrak: "str_lower sample_env ''CapTrak'' = ''captrak''"
  by (simp add: sample_env_def lower_def lower_char_def)

lemma lower_Other: "str_lower sample_env ''Other'' = ''other''"
  by (simp add: sample_env_def lower_def lower_char_def)

lemma sidecars_descriptor:
  "json_load sample_coordsystem_path (sidecars_state doc) = Inr doc"
  using sample_paths_differ by (simp add: json_load_def sidecars_state_def)

lemma sidecars_table:
  "fs (sidecars_state doc) sample_electrodes_path =
     Some (TsvFile [(''name'', map PStr [''Fz'', ''Cz'']), (''x'', map PStr [''0.5'', ''n/a'']),
                    (''y'', map PStr [''0.5'', ''n/a'']), (''z'', map PStr [''0.5'', ''n/a''])])"
  using sample_paths_differ by (auto simp: sidecars_state_def)

lemma sidecars_read:
  "handle_electrodes_reading sample_env sample_electrodes_path fr (JStr ''m'')
     (sample_raw [''Fz'', ''Cz'']) False (sidecars_state doc) =
   (Inr (sample_raw [''Fz'', ''Cz'']
           \<lparr>montage := Some \<lparr>ch_pos = [(''Fz'', (Fin (1 / 2), Fin (1 / 2), Fin (1 / 2))),
                                       (''Cz'', (NaN, NaN, NaN))],
                             frame = fr\<rparr>\<rparr>),
    warn (NanChannels [''Cz'']) (sidecars_state doc))"
proof -
  let ?d = "[(''name'', map PStr [''Fz'', ''Cz'']), (''x'', map PStr [''0.5'', ''n/a'']),
             (''y'', map PStr [''0.5'', ''n/a'']), (''z'', map PStr [''0.5'', ''n/a''])]"
  let ?rw = "sample_raw [''Fz'', ''Cz'']"
  let ?col = "[PFloat (Fin (1 / 2)), PFloat NaN]"
  have x: "map_of ?d ''x'' = Some [PStr ''0.5'', PStr ''n/a'']"
    and y: "map_of ?d ''y'' = Some [PStr ''0.5'', PStr ''n/a'']"
    and z: "map_of ?d ''z'' = Some [PStr ''0.5'', PStr ''n/a'']"
    by simp_all
  have n: "map_of ?d ''name'' = Some (map PStr (ch_names ?rw))"
    and l: "length [PStr ''0.5'', PStr ''n/a''] = length (ch_names ?rw)"
    by (simp_all add: sample_names)
  note c = sample_conversion
  have r: "rows ?col ?col ?col = [(Fin (1 / 2), Fin (1 / 2), Fin (1 / 2)), (NaN, NaN, NaN)]"
    by (simp add: rows_def)
  have b: "bads ?rw = []" by (simp add: sample_raw_def)
  show ?thesis
    unfolding handle_electrodes_reading_exact [OF sidecars_table n x c y c z c l l l] r
    by (simp add: sample_names b nan_chs_of_def any_isnan_def scale_coord_to_meters_def
        dict_of_def make_dig_montage_def set_montage_def)
qed


lemma read_dig_bids_ieeg_other:
  assumes "handle_coordsystem_reading ev cp ''ieeg'' v st = Inr (''other'', u)"
    and "''other'' \<in> set (BIDS_IEEG_COORDINATE_FRAMES ev)"
    and "map_of (BIDS_TO_MNE_FRAMES ev) (space_of ev ep) = None"
  shows "read_dig_bids ev ep cp rw ''ieeg'' v st =
           (Inr rw,
            if unit_accepted ev u then warn (DefaultingToUnknown ''other'') st
            else warn (UnitNotAccepted ep) (warn (DefaultingToUnknown ''other'') st))"
  unfolding read_dig_bids_cases [OF assms(1)]
  using assms(2,3) by (simp add: resolve_frame_def)

lemma read_dig_bids_ieeg_other_space:
  assumes "handle_coordsystem_reading ev cp ''ieeg'' v st = Inr (''other'', u)"
    and "''other'' \<in> set (BIDS_IEEG_COORDINATE_FRAMES ev)"
    and "map_of (BIDS_TO_MNE_FRAMES ev) (space_of ev ep) = Some f"
    and "unit_accepted ev u"
  shows "read_dig_bids ev ep cp rw ''ieeg'' v st = handle_electrodes_reading ev ep f u rw v st"
  unfolding read_dig_bids_cases [OF assms(1)]
  using assms(2,3,4) by (simp add: resolve_frame_def)


section \<open>The write orchestration by cases\<close>

lemma frames_diverge_iff:
  "frames_diverge dg \<longleftrightarrow> (\<exists>a\<in>set dg. \<exists>b\<in>set dg. coord_frame a \<noteq> coord_frame b)"
proof -
  let ?A = "set (map coord_frame dg)"
  have "length (remdups (map coord_frame dg)) = card ?A"
    by (simp only: length_remdups_card_conv)
  moreover have "card ?A \<le> Suc 0 \<longleftrightarrow> (\<forall>a\<in>?A. \<forall>b\<in>?A. a = b)"
    by (rule card_le_Suc0_iff_eq) simp
  ultimately have "frames_diverge dg \<longleftrightarrow> \<not> (\<forall>a\<in>?A. \<forall>b\<in>?A. a = b)"
    unfolding frames_diverge_def by linarith
  then show ?thesis by auto
qed

lemma first_frame_differs_iff:
  "list_ex (\<lambda>d. coord_frame p \<noteq> coord_frame d) (p # ps) \<longleftrightarrow>
     (\<exists>a\<in>set (p # ps). \<exists>b\<in>set (p # ps). coord_frame a \<noteq> coord_frame b)"
  by (auto simp: list_ex_iff) metis+

lemma coordsystem_json_diverge:
  assumes "dig rw = Some dg" and "frames_diverge dg"
  shows "coordsystem_json ev rw u orient name fname dtype ow v st = (Inl ValueError, st)"
  using assms by (simp add: coordsystem_json_def Let_def)

lemma write_dig_bids_diverge:
  assumes "dig rw = Some (p # ps)" and "list_ex (\<lambda>d. coord_frame p \<noteq> coord_frame d) (p # ps)"
  shows "write_dig_bids ev ep cp rt rw dtype ow v st = (Inr (), warn DigFramesDiffer st)"
  using assms by (simp add: write_dig_bids_def Let_def)


lemma find_Some_holds: "find P xs = Some x \<Longrightarrow> x \<in> set xs \<and> P x"
  by (induction xs) (auto split: if_splits)

lemma landmark_entry_keys:
  "map fst (landmark_entry dg l i) = (if has_landmark dg i then [l] else [])"
proof (cases "find (\<lambda>d. kind d = FIFFV_POINT_CARDINAL \<and> ident d = i) (rev dg)")
  case None
  then have "\<not> has_landmark dg i"
    by (simp add: find_None_iff has_landmark_def list_ex_iff)
  with None show ?thesis by (simp add: landmark_entry_def)
next
  case (Some d)
  from find_Some_holds [OF Some] have "has_landmark dg i"
    unfolding has_landmark_def list_ex_iff by auto
  with Some show ?thesis by (simp add: landmark_entry_def split: prod.splits)
qed

lemma extract_landmarks_keys:
  "map fst (extract_landmarks dg) =
     (if has_landmark dg FIFFV_POINT_NASION then [''NAS''] else [])
     @ (if has_landmark dg FIFFV_POINT_LPA then [''LPA''] else [])
     @ (if has_landmark dg FIFFV_POINT_RPA then [''RPA''] else [])"
  by (simp only: extract_landmarks_def map_append landmark_entry_keys)

lemma three_labels:
  "set [''RPA'', ''NAS'', ''LPA''] = set ((if a then [''NAS''] else []) @ (if b then [''LPA''] else [])
      @ (if c then [''RPA''] else [])) \<longleftrightarrow> a \<and> b \<and> c"
proof
  assume eq: "set [''RPA'', ''NAS'', ''LPA''] = set ((if a then [''NAS''] else [])
      @ (if b then [''LPA''] else []) @ (if c then [''RPA''] else []))"
  have "''NAS'' \<in> set [''RPA'', ''NAS'', ''LPA'']" by simp
  then have a: a unfolding eq by (simp split: if_splits)
  have "''LPA'' \<in> set [''RPA'', ''NAS'', ''LPA'']" by simp
  then have b: b unfolding eq by (simp split: if_splits)
  have "''RPA'' \<in> set [''RPA'', ''NAS'', ''LPA'']" by simp
  then have c: c unfolding eq by (simp split: if_splits)
  from a b c show "a \<and> b \<and> c" by simp
next
  assume "a \<and> b \<and> c"
  then show "set [''RPA'', ''NAS'', ''LPA''] = set ((if a then [''NAS''] else [])
      @ (if b then [''LPA''] else []) @ (if c then [''RPA''] else []))"
    by (simp add: insert_commute)
qed

lemma landmarks_complete_iff:
  "set [''RPA'', ''NAS'', ''LPA''] = set (map fst (extract_landmarks dg)) \<longleftrightarrow>
     has_landmark dg FIFFV_POINT_LPA \<and> has_landmark dg FIFFV_POINT_NASION
     \<and> has_landmark dg FIFFV_POINT_RPA"
  unfolding extract_landmarks_keys three_labels by blast

lemma electrodes_tsv_ieeg:
  assumes "ow \<or> fs st ep = None"
  shows "\<exists>data. electrodes_data ev rw ''ieeg'' = Inr data
           \<and> electrodes_tsv ev rw ep ''ieeg'' ow v st
               = (Inr (), st\<lparr>fs := (fs st)(ep \<mapsto> TsvFile data)\<rparr>)"
  using assms by (auto simp: electrodes_tsv_def electrodes_data_def write_tsv_def Let_def)

lemma electrodes_tsv_eeg:
  assumes "ow \<or> fs st ep = None"
  shows "\<exists>data. electrodes_data ev rw ''eeg'' = Inr data
           \<and> electrodes_tsv ev rw ep ''eeg'' ow v st
               = (Inr (), st\<lparr>fs := (fs st)(ep \<mapsto> TsvFile data)\<rparr>)"
  using assms by (auto simp: electrodes_tsv_def electrodes_data_def write_tsv_def Let_def)

lemma coordsystem_json_ieeg:
  assumes "\<not> frames_diverge (case dig rw of None \<Rightarrow> [] | Some d \<Rightarrow> d)"
    and "ow \<or> fs st cp = None"
  shows "\<exists>doc. coordsystem_json ev rw u orient name cp ''ieeg'' ow v st
               = (Inr (), st\<lparr>fs := (fs st)(cp \<mapsto> JsonFile doc)\<rparr>)
           \<and> map_of doc ''iEEGCoordinateSystem'' = Some (JStr name)
           \<and> map_of doc ''iEEGCoordinateUnits'' = Some (JStr u)"
  using assms by (auto simp: coordsystem_json_def write_json_def Let_def)

lemma coordsystem_json_eeg:
  assumes "\<not> frames_diverge (case dig rw of None \<Rightarrow> [] | Some d \<Rightarrow> d)"
    and "ow \<or> fs st cp = None"
  shows "\<exists>doc. coordsystem_json ev rw u orient name cp ''eeg'' ow v st
               = (Inr (), st\<lparr>fs := (fs st)(cp \<mapsto> JsonFile doc)\<rparr>)
           \<and> map_of doc ''EEGCoordinateSystem'' = Some (JStr name)
           \<and> map_of doc ''EEGCoordinateUnits'' = Some (JStr u)"
  using assms by (auto simp: coordsystem_json_def write_json_def Let_def)

lemma write_both_ieeg:
  assumes nd: "\<not> frames_diverge (case dig rw of None \<Rightarrow> [] | Some d \<Rightarrow> d)"
    and ne: "ep \<noteq> cp"
    and free: "ow \<or> (fs st ep = None \<and> fs st cp = None)"
  shows "\<exists>data doc.
           write_both ev rw ep cp u orient name ''ieeg'' ow v st
             = (Inr (), st\<lparr>fs := (fs st)(ep \<mapsto> TsvFile data, cp \<mapsto> JsonFile doc)\<rparr>)
           \<and> electrodes_data ev rw ''ieeg'' = Inr data
           \<and> map_of doc ''iEEGCoordinateSystem'' = Some (JStr name)
           \<and> map_of doc ''iEEGCoordinateUnits'' = Some (JStr u)"
proof -
  from free have "ow \<or> fs st ep = None" by auto
  from electrodes_tsv_ieeg [OF this, of ev rw v] obtain data where
    d: "electrodes_data ev rw ''ieeg'' = Inr data"
    and t: "electrodes_tsv ev rw ep ''ieeg'' ow v st
              = (Inr (), st\<lparr>fs := (fs st)(ep \<mapsto> TsvFile data)\<rparr>)"
    by blast
  let ?st1 = "st\<lparr>fs := (fs st)(ep \<mapsto> TsvFile data)\<rparr>"
  from free ne have "ow \<or> fs ?st1 cp = None" by auto
  from coordsystem_json_ieeg [OF nd this, of ev u orient name v] obtain doc where
    j: "coordsystem_json ev rw u orient name cp ''ieeg'' ow v ?st1
          = (Inr (), ?st1\<lparr>fs := (fs ?st1)(cp \<mapsto> JsonFile doc)\<rparr>)"
    and k: "map_of doc ''iEEGCoordinateSystem'' = Some (JStr name)"
      "map_of doc ''iEEGCoordinateUnits'' = Some (JStr u)"
    by blast
  have "write_both ev rw ep cp u orient name ''ieeg'' ow v st
          = (Inr (), st\<lparr>fs := (fs st)(ep \<mapsto> TsvFile data, cp \<mapsto> JsonFile doc)\<rparr>)"
    by (simp add: write_both_def t j)
  with d k show ?thesis by blast
qed

lemma write_both_eeg:
  assumes nd: "\<not> frames_diverge (case dig rw of None \<Rightarrow> [] | Some d \<Rightarrow> d)"
    and ne: "ep \<noteq> cp"
    and free: "ow \<or> (fs st ep = None \<and> fs st cp = None)"
  shows "\<exists>data doc.
           write_both ev rw ep cp u orient name ''eeg'' ow v st
             = (Inr (), st\<lparr>fs := (fs st)(ep \<mapsto> TsvFile data, cp \<mapsto> JsonFile doc)\<rparr>)
           \<and> electrodes_data ev rw ''eeg'' = Inr data
           \<and> map_of doc ''EEGCoordinateSystem'' = Some (JStr name)
           \<and> map_of doc ''EEGCoordinateUnits'' = Some (JStr u)"
proof -
  from free have "ow \<or> fs st ep = None" by auto
  from electrodes_tsv_eeg [OF this, of ev rw v] obtain data where
    d: "electrodes_data ev rw ''eeg'' = Inr data"
    and t: "electrodes_tsv ev rw ep ''eeg'' ow v st
              = (Inr (), st\<lparr>fs := (fs st)(ep \<mapsto> TsvFile data)\<rparr>)"
    by blast
  let ?st1 = "st\<lparr>fs := (fs st)(ep \<mapsto> TsvFile data)\<rparr>"
  from free ne have "ow \<or> fs ?st1 cp = None" by auto
  from coordsystem_json_eeg [OF nd this, of ev u orient name v] obtain doc where
    j: "coordsystem_json ev rw u orient name cp ''eeg'' ow v ?st1
          = (Inr (), ?st1\<lparr>fs := (fs ?st1)(cp \<mapsto> JsonFile doc)\<rparr>)"
    and k: "map_of doc ''EEGCoordinateSystem'' = Some (JStr name)"
      "map_of doc ''EEGCoordinateUnits'' = Some (JStr u)"
    by blast
  have "write_both ev rw ep cp u orient name ''eeg'' ow v st
          = (Inr (), st\<lparr>fs := (fs st)(ep \<mapsto> TsvFile data, cp \<mapsto> JsonFile doc)\<rparr>)"
    by (simp add: write_both_def t j)
  with d k show ?thesis by blast
qed

lemma consistent_not_diverge:
  assumes "\<forall>d\<in>set ps. coord_frame d = coord_frame p"
  shows "\<not> frames_diverge (p # ps)" and "\<not> list_ex (\<lambda>d. coord_frame p \<noteq> coord_frame d) (p # ps)"
  using assms by (auto simp: frames_diverge_iff list_ex_iff)

lemma write_dig_bids_eeg:
  assumes "dig rw = Some (p # ps)"
    and "\<not> list_ex (\<lambda>d. coord_frame p \<noteq> coord_frame d) (p # ps)"
  shows "write_dig_bids ev ep cp rt rw ''eeg'' ow v st =
           (if coord_frame p = FIFFV_COORD_HEAD
               \<and> set [''RPA'', ''NAS'', ''LPA''] = set (map fst (extract_landmarks (p # ps)))
            then write_both ev rw ep cp ''m'' ''RAS'' ''CapTrak'' ''eeg'' ow v st
            else (Inr (), warn SkippingEEG st))"
  using assms by (simp add: write_dig_bids_def Let_def)


lemma sample_entities:
  "subject sample_electrodes_path = Some ''01''"
  "session sample_electrodes_path = Some ''01''"
  "acquisition sample_electrodes_path = None"
  by (simp_all add: sample_electrodes_path_def BIDSPath_def)


section \<open>Reading back what was written\<close>



lemma map_result_pointwise:
  "\<forall>x\<in>set xs. f x = Inr (g x) \<Longrightarrow> map_result f xs = Inr (map g xs)"
  by (induction xs) auto
























section \<open>The claims\<close>

text \<open>
  C2, the name-order invariant. With the position table present and its name column
  read: when the table's names equal the recording's, in order, the name check passes
  and the reader does not raise its RuntimeError; when they differ in any way other than
  the recording having one more channel, \<^verbatim>\<open>STI 014\<close>, at its end, the reader raises
  and leaves the state as it was (RuntimeError, or IndexError from
  \<^verbatim>\<open>ch_names_raw[-1]\<close> when the recording has no channel at all).
\<close>

theorem name_order_invariant:
  assumes "fs st fname = Some (TsvFile d)" and "map_of d ''name'' = Some ts"
  shows "(map PStr (ch_names rw) = ts \<longrightarrow>
            check_ch_names (ch_names rw) ts = Inr ()
            \<and> fst (handle_electrodes_reading ev fname fr u rw v st) \<noteq> Inl RuntimeError)
       \<and> (map PStr (ch_names rw) \<noteq> ts
            \<and> \<not> (ch_names rw \<noteq> [] \<and> last (ch_names rw) = ''STI 014''
                   \<and> map PStr (butlast (ch_names rw)) = ts) \<longrightarrow>
            handle_electrodes_reading ev fname fr u rw v st =
              (Inl (if ch_names rw = [] then IndexError else RuntimeError), st))"
proof (intro conjI impI)
  assume eq: "map PStr (ch_names rw) = ts"
  then show ok: "check_ch_names (ch_names rw) ts = Inr ()"
    by (simp add: check_ch_names_def)
  show "fst (handle_electrodes_reading ev fname fr u rw v st) \<noteq> Inl RuntimeError"
    by (rule handle_electrodes_reading_no_RuntimeError [OF ok assms])
next
  assume ne: "map PStr (ch_names rw) \<noteq> ts
            \<and> \<not> (ch_names rw \<noteq> [] \<and> last (ch_names rw) = ''STI 014''
                   \<and> map PStr (butlast (ch_names rw)) = ts)"
  then have "check_ch_names (ch_names rw) ts =
               Inl (if ch_names rw = [] then IndexError else RuntimeError)"
    by (auto simp: check_ch_names_def)
  from handle_electrodes_reading_name_error [OF this assms]
  show "handle_electrodes_reading ev fname fr u rw v st =
          (Inl (if ch_names rw = [] then IndexError else RuntimeError), st)" .
qed


theorem name_order_invariant_witness:
  "(check_ch_names [''Fz'', ''Cz''] [PStr ''Fz'', PStr ''Cz''] = Inr ()
     \<and> fst (handle_electrodes_reading sample_env sample_electrodes_path ''head'' (JStr ''m'')
              (sample_raw [''Fz'', ''Cz'']) False
              (tsv_state [''Fz'', ''Cz''] [''0.5'', ''n/a''] [''0.5'', ''n/a''] [''0.5'', ''n/a'']))
         \<noteq> Inl RuntimeError)
   \<and> handle_electrodes_reading sample_env sample_electrodes_path ''head'' (JStr ''m'')
        (sample_raw [''Cz'', ''Fz'']) False
        (tsv_state [''Fz'', ''Cz''] [''0.5'', ''n/a''] [''0.5'', ''n/a''] [''0.5'', ''n/a''])
      = (Inl RuntimeError,
         tsv_state [''Fz'', ''Cz''] [''0.5'', ''n/a''] [''0.5'', ''n/a''] [''0.5'', ''n/a''])"
proof -
  let ?st = "tsv_state [''Fz'', ''Cz''] [''0.5'', ''n/a''] [''0.5'', ''n/a''] [''0.5'', ''n/a'']"
  let ?d = "[(''name'', map PStr [''Fz'', ''Cz'']), (''x'', map PStr [''0.5'', ''n/a'']),
             (''y'', map PStr [''0.5'', ''n/a'']), (''z'', map PStr [''0.5'', ''n/a''])]"
  have f: "fs ?st sample_electrodes_path = Some (TsvFile ?d)"
    by (simp add: tsv_state_def)
  have n: "map_of ?d ''name'' = Some [PStr ''Fz'', PStr ''Cz'']"
    by simp
  show ?thesis
    using name_order_invariant [OF f n, of "sample_raw [''Fz'', ''Cz'']" sample_env "''head''" "JStr ''m''" False]
      name_order_invariant [OF f n, of "sample_raw [''Cz'', ''Fz'']" sample_env "''head''" "JStr ''m''" False]
    by (simp add: sample_names)
qed

text \<open>
  C9, the missing-position warning. For a position table whose names equal the
  recording's and whose coordinate columns convert: a channel with a not-a-number
  coordinate that is not among the bad channels makes the reader emit exactly one
  warning, which names the channel; when the channel is among the bad channels no
  warning names it. In both cases the reader returns the recording, no exception.
\<close>

theorem missing_position_warning:
  assumes tsv: "fs st fname = Some (TsvFile d)"
    and names: "map_of d ''name'' = Some (map PStr (ch_names rw))"
    and x: "map_of d ''x'' = Some x0" "map_result (float_or_nan ev) x0 = Inr xs"
    and y: "map_of d ''y'' = Some y0" "map_result (float_or_nan ev) y0 = Inr ys"
    and z: "map_of d ''z'' = Some z0" "map_result (float_or_nan ev) z0 = Inr zs"
    and len: "length x0 = length (ch_names rw)" "length y0 = length (ch_names rw)"
      "length z0 = length (ch_names rw)"
    and i: "i < length (ch_names rw)"
    and nan: "xs ! i = PFloat NaN \<or> ys ! i = PFloat NaN \<or> zs ! i = PFloat NaN"
  shows "\<exists>rw' ws.
           handle_electrodes_reading ev fname fr u rw v st =
             (Inr rw', st\<lparr>warnings := warnings st @ ws\<rparr>)
           \<and> (ch_names rw ! i \<notin> set (bads rw) \<longrightarrow>
                (\<exists>l. ws = [NanChannels l] \<and> ch_names rw ! i \<in> set l))
           \<and> (ch_names rw ! i \<in> set (bads rw) \<longrightarrow>
                (\<forall>l. NanChannels l \<in> set ws \<longrightarrow> ch_names rw ! i \<notin> set l))"
proof -
  let ?ns = "ch_names rw"
  let ?locs = "rows xs ys zs"
  let ?l = "nan_chs_of (bads rw) (zip ?ns ?locs)"
  let ?ws = "if ?l = [] then [] else [NanChannels ?l]"
  have lx: "length xs = length ?ns" using map_result_length [OF x(2)] len by simp
  have ly: "length ys = length ?ns" using map_result_length [OF y(2)] len by simp
  have lz: "length zs = length ?ns" using map_result_length [OF z(2)] len by simp
  have ll: "length ?locs = length ?ns" by (rule rows_length [OF lx ly lz])
  have row: "?locs ! i = (the_float (xs ! i), the_float (ys ! i), the_float (zs ! i))"
    using rows_nth [of i xs ys zs] i lx ly lz by simp
  have isn: "any_isnan (?locs ! i)"
    using nan by (auto simp: row any_isnan_def)
  have mem: "(?ns ! i, ?locs ! i) \<in> set (zip ?ns ?locs)"
    using i ll by (auto simp: set_zip)
  have res: "handle_electrodes_reading ev fname fr u rw v st =
               (Inr (set_montage
                       (make_dig_montage
                          (dict_of (zip ?ns (scale_coord_to_meters ?locs u))) fr) rw),
                st\<lparr>warnings := warnings st @ ?ws\<rparr>)"
    unfolding handle_electrodes_reading_exact [OF tsv names x y z len]
    by (simp add: warn_def)
  have good: "?ns ! i \<notin> set (bads rw) \<longrightarrow> (\<exists>l. ?ws = [NanChannels l] \<and> ?ns ! i \<in> set l)"
  proof
    assume "?ns ! i \<notin> set (bads rw)"
    with mem isn have "?ns ! i \<in> set ?l"
      unfolding nan_chs_of_iff by blast
    then show "\<exists>l. ?ws = [NanChannels l] \<and> ?ns ! i \<in> set l"
      by auto
  qed
  have bad: "?ns ! i \<in> set (bads rw) \<longrightarrow> (\<forall>l. NanChannels l \<in> set ?ws \<longrightarrow> ?ns ! i \<notin> set l)"
    by (auto simp: nan_chs_of_iff split: if_splits)
  from res good bad show ?thesis by blast
qed

theorem missing_position_warning_witness:
  "(\<exists>rw' ws.
      handle_electrodes_reading sample_env sample_electrodes_path ''head'' (JStr ''m'')
        (sample_raw [''Fz'', ''Cz'']) False
        (tsv_state [''Fz'', ''Cz''] [''0.5'', ''n/a''] [''0.5'', ''n/a''] [''0.5'', ''n/a'']) =
        (Inr rw',
         (tsv_state [''Fz'', ''Cz''] [''0.5'', ''n/a''] [''0.5'', ''n/a''] [''0.5'', ''n/a''])
           \<lparr>warnings := ws\<rparr>)
      \<and> (\<exists>l. ws = [NanChannels l] \<and> ''Cz'' \<in> set l))
   \<and> (\<exists>rw' ws.
      handle_electrodes_reading sample_env sample_electrodes_path ''head'' (JStr ''m'')
        (sample_raw [''Fz'', ''Cz'']\<lparr>bads := [''Cz'']\<rparr>) False
        (tsv_state [''Fz'', ''Cz''] [''0.5'', ''n/a''] [''0.5'', ''n/a''] [''0.5'', ''n/a'']) =
        (Inr rw',
         (tsv_state [''Fz'', ''Cz''] [''0.5'', ''n/a''] [''0.5'', ''n/a''] [''0.5'', ''n/a''])
           \<lparr>warnings := ws\<rparr>)
      \<and> (\<forall>l. NanChannels l \<in> set ws \<longrightarrow> ''Cz'' \<notin> set l))"
proof -
  let ?st = "tsv_state [''Fz'', ''Cz''] [''0.5'', ''n/a''] [''0.5'', ''n/a''] [''0.5'', ''n/a'']"
  let ?d = "[(''name'', map PStr [''Fz'', ''Cz'']), (''x'', map PStr [''0.5'', ''n/a'']),
             (''y'', map PStr [''0.5'', ''n/a'']), (''z'', map PStr [''0.5'', ''n/a''])]"
  let ?good = "sample_raw [''Fz'', ''Cz'']"
  let ?bad = "sample_raw [''Fz'', ''Cz'']\<lparr>bads := [''Cz'']\<rparr>"
  let ?col = "[PFloat (Fin (1 / 2)), PFloat NaN]"
  have w: "?st\<lparr>warnings := warnings ?st @ ws\<rparr> = ?st\<lparr>warnings := ws\<rparr>" for ws
    by (simp add: tsv_state_def)
  have f: "fs ?st sample_electrodes_path = Some (TsvFile ?d)"
    by (rule sample_table)
  have x: "map_of ?d ''x'' = Some [PStr ''0.5'', PStr ''n/a'']"
    and y: "map_of ?d ''y'' = Some [PStr ''0.5'', PStr ''n/a'']"
    and z: "map_of ?d ''z'' = Some [PStr ''0.5'', PStr ''n/a'']"
    by simp_all
  have nan: "?col ! 1 = PFloat NaN \<or> ?col ! 1 = PFloat NaN \<or> ?col ! 1 = PFloat NaN"
    by simp
  have gn: "map_of ?d ''name'' = Some (map PStr (ch_names ?good))"
    and gl: "length [PStr ''0.5'', PStr ''n/a''] = length (ch_names ?good)"
    and gi: "1 < length (ch_names ?good)"
    by (simp_all add: sample_names)
  have bn: "map_of ?d ''name'' = Some (map PStr (ch_names ?bad))"
    and bl: "length [PStr ''0.5'', PStr ''n/a''] = length (ch_names ?bad)"
    and bi: "1 < length (ch_names ?bad)"
    by (simp_all add: sample_bads)
  note c = sample_conversion
  have a: "\<exists>rw' ws.
      handle_electrodes_reading sample_env sample_electrodes_path ''head'' (JStr ''m'')
        ?good False ?st = (Inr rw', ?st\<lparr>warnings := ws\<rparr>)
      \<and> (\<exists>l. ws = [NanChannels l] \<and> ''Cz'' \<in> set l)"
    using missing_position_warning [OF f gn x c y c z c gl gl gl gi nan,
        of "''head''" "JStr ''m''" False]
    by (simp add: sample_names w) (simp add: sample_raw_def)
  have b: "\<exists>rw' ws.
      handle_electrodes_reading sample_env sample_electrodes_path ''head'' (JStr ''m'')
        ?bad False ?st = (Inr rw', ?st\<lparr>warnings := ws\<rparr>)
      \<and> (\<forall>l. NanChannels l \<in> set ws \<longrightarrow> ''Cz'' \<notin> set l)"
    using missing_position_warning [OF f bn x c y c z c bl bl bl bi nan,
        of "''head''" "JStr ''m''" False]
    by (simp add: sample_bads w)
  from a b show ?thesis by blast
qed

text \<open>
  C10, the filter on \<^verbatim>\<open>"n/a"\<close>. As stated the claim covers every table that
  passes the name check; a recording with a trailing \<^verbatim>\<open>STI 014\<close> passes it with
  a table one row shorter, and there the filter reads the x column past its end:
  IndexError, no montage.
\<close>

theorem name_check_passed_no_montage_counterexample:
  "check_ch_names (ch_names (sample_raw [''Fz'', ''STI 014''])) [PStr ''Fz''] = Inr ()
   \<and> handle_electrodes_reading sample_env sample_electrodes_path ''head'' (JStr ''m'')
        (sample_raw [''Fz'', ''STI 014'']) False (tsv_state [''Fz''] [''n/a''] [''n/a''] [''n/a''])
      = (Inl IndexError, tsv_state [''Fz''] [''n/a''] [''n/a''] [''n/a''])"
  by (simp add: sample_names check_ch_names_def handle_electrodes_reading_def from_tsv_def
      sample_table dict_getitem_def float_or_nan_def)

text \<open>
  C10 as amended: the filter, where it returns, returns the names it was given; for a
  table whose names equal the recording's, in order, and whose coordinate columns
  convert, it returns the recording's channel names and the montage attached has
  a position entry for every channel; with distinct channel names these are the rows of
  the table in order, and a row is not-a-number in the montage exactly when it is in
  the table.
\<close>

theorem montage_covers_every_channel:
  assumes tsv: "fs st fname = Some (TsvFile d)"
    and names: "map_of d ''name'' = Some (map PStr (ch_names rw))"
    and x: "map_of d ''x'' = Some x0" "map_result (float_or_nan ev) x0 = Inr xs"
    and y: "map_of d ''y'' = Some y0" "map_result (float_or_nan ev) y0 = Inr ys"
    and z: "map_of d ''z'' = Some z0" "map_result (float_or_nan ev) z0 = Inr zs"
    and len: "length x0 = length (ch_names rw)" "length y0 = length (ch_names rw)"
      "length z0 = length (ch_names rw)"
  shows "(\<forall>ns ms. filter_na ns xs = Inr ms \<longrightarrow> ms = ns)
       \<and> filter_na (ch_names rw) xs = Inr (ch_names rw)
       \<and> (\<exists>m st'.
            handle_electrodes_reading ev fname fr u rw v st = (Inr (rw\<lparr>montage := Some m\<rparr>), st')
            \<and> fst ` set (ch_pos m) = set (ch_names rw)
            \<and> (distinct (ch_names rw) \<longrightarrow>
                 ch_pos m = zip (ch_names rw) (scale_coord_to_meters (rows xs ys zs) u)
                 \<and> length (ch_pos m) = length (ch_names rw)
                 \<and> (\<forall>i < length (ch_names rw).
                       any_isnan (snd (ch_pos m ! i)) = any_isnan (rows xs ys zs ! i))))"
proof -
  let ?ns = "ch_names rw"
  let ?locs = "rows xs ys zs"
  let ?m = "make_dig_montage (dict_of (zip ?ns (scale_coord_to_meters ?locs u))) fr"
  let ?pos = "ch_pos ?m"
  have pos: "?pos = dict_of (zip ?ns (scale_coord_to_meters ?locs u))"
    by (simp add: make_dig_montage_def)
  have lx: "length xs = length ?ns" using map_result_length [OF x(2)] len by simp
  have ly: "length ys = length ?ns" using map_result_length [OF y(2)] len by simp
  have lz: "length zs = length ?ns" using map_result_length [OF z(2)] len by simp
  have ll: "length ?locs = length ?ns" by (rule rows_length [OF lx ly lz])
  have ls: "length (scale_coord_to_meters ?locs u) = length ?ns"
    by (simp add: scale_length ll)
  have flt: "filter_na ?ns xs = Inr ?ns"
    using filter_na_floats [OF map_result_floats [OF x(2)], of ?ns] lx by simp
  have res: "handle_electrodes_reading ev fname fr u rw v st =
               (Inr (rw\<lparr>montage := Some ?m\<rparr>),
                if nan_chs_of (bads rw) (zip ?ns ?locs) = [] then st
                else warn (NanChannels (nan_chs_of (bads rw) (zip ?ns ?locs))) st)"
    unfolding handle_electrodes_reading_exact [OF tsv names x y z len]
    by (simp add: set_montage_def)
  have keys: "fst ` set ?pos = set ?ns"
  proof -
    have "fst ` set ?pos = set (map fst (zip ?ns (scale_coord_to_meters ?locs u)))"
      unfolding pos by (simp add: dict_of_keys)
    also have "\<dots> = set ?ns" using ls by simp
    finally show ?thesis .
  qed
  have dist: "distinct ?ns \<longrightarrow>
                ?pos = zip ?ns (scale_coord_to_meters ?locs u)
                \<and> length ?pos = length ?ns
                \<and> (\<forall>i < length ?ns. any_isnan (snd (?pos ! i)) = any_isnan (?locs ! i))"
  proof
    assume "distinct ?ns"
    then have "distinct (map fst (zip ?ns (scale_coord_to_meters ?locs u)))"
      using ls by simp
    then have eq: "?pos = zip ?ns (scale_coord_to_meters ?locs u)"
      unfolding pos by (rule dict_of_distinct)
    show "?pos = zip ?ns (scale_coord_to_meters ?locs u)
          \<and> length ?pos = length ?ns
          \<and> (\<forall>i < length ?ns. any_isnan (snd (?pos ! i)) = any_isnan (?locs ! i))"
      unfolding eq using ls ll by (simp add: scale_any_isnan)
  qed
  have keeps: "\<forall>ns ms. filter_na ns xs = Inr ms \<longrightarrow> ms = ns"
    using filter_na_keeps [OF map_result_floats [OF x(2)]] by blast
  from res keys dist flt keeps show ?thesis
    by blast
qed


theorem montage_covers_every_channel_witness:
  "\<exists>m st'.
     handle_electrodes_reading sample_env sample_electrodes_path ''head'' (JStr ''m'')
       (sample_raw [''Fz'', ''Cz'']) False
       (tsv_state [''Fz'', ''Cz''] [''0.5'', ''n/a''] [''0.5'', ''n/a''] [''0.5'', ''n/a'']) =
       (Inr (sample_raw [''Fz'', ''Cz'']\<lparr>montage := Some m\<rparr>), st')
     \<and> ch_pos m = [(''Fz'', (Fin (1 / 2), Fin (1 / 2), Fin (1 / 2))), (''Cz'', (NaN, NaN, NaN))]"
proof -
  let ?st = "tsv_state [''Fz'', ''Cz''] [''0.5'', ''n/a''] [''0.5'', ''n/a''] [''0.5'', ''n/a'']"
  let ?d = "[(''name'', map PStr [''Fz'', ''Cz'']), (''x'', map PStr [''0.5'', ''n/a'']),
             (''y'', map PStr [''0.5'', ''n/a'']), (''z'', map PStr [''0.5'', ''n/a''])]"
  let ?rw = "sample_raw [''Fz'', ''Cz'']"
  have f: "fs ?st sample_electrodes_path = Some (TsvFile ?d)"
    by (rule sample_table)
  have x: "map_of ?d ''x'' = Some [PStr ''0.5'', PStr ''n/a'']"
    and y: "map_of ?d ''y'' = Some [PStr ''0.5'', PStr ''n/a'']"
    and z: "map_of ?d ''z'' = Some [PStr ''0.5'', PStr ''n/a'']"
    by simp_all
  have n: "map_of ?d ''name'' = Some (map PStr (ch_names ?rw))"
    and l: "length [PStr ''0.5'', PStr ''n/a''] = length (ch_names ?rw)"
    by (simp_all add: sample_names)
  note c = sample_conversion
  have r: "scale_coord_to_meters
             (rows [PFloat (Fin (1 / 2)), PFloat NaN] [PFloat (Fin (1 / 2)), PFloat NaN]
                [PFloat (Fin (1 / 2)), PFloat NaN]) (JStr ''m'') =
           [(Fin (1 / 2), Fin (1 / 2), Fin (1 / 2)), (NaN, NaN, NaN)]"
    by (simp add: scale_coord_to_meters_def rows_def)
  have d: "distinct (ch_names ?rw)"
    by (simp add: sample_names)
  from montage_covers_every_channel [OF f n x c y c z c l l l, of "''head''" "JStr ''m''" False]
  obtain m st' where
    res: "handle_electrodes_reading sample_env sample_electrodes_path ''head'' (JStr ''m'')
            ?rw False ?st = (Inr (?rw\<lparr>montage := Some m\<rparr>), st')"
    and pos: "distinct (ch_names ?rw) \<longrightarrow>
                ch_pos m = zip (ch_names ?rw)
                  (scale_coord_to_meters
                     (rows [PFloat (Fin (1 / 2)), PFloat NaN] [PFloat (Fin (1 / 2)), PFloat NaN]
                        [PFloat (Fin (1 / 2)), PFloat NaN]) (JStr ''m''))"
    by blast
  from pos d have "ch_pos m = [(''Fz'', (Fin (1 / 2), Fin (1 / 2), Fin (1 / 2))), (''Cz'', (NaN, NaN, NaN))]"
    unfolding r by (simp add: sample_names)
  with res show ?thesis by blast
qed

text \<open>
  C4, unit gating. With the descriptor read as frame name and unit: when the unit is not
  an accepted one, the read orchestration returns the recording as it was given, touches
  no file and warns about the unit, whatever the frame resolved to; when the frame does
  not resolve it returns the recording as it was given; and the position table is read
  and attached when the unit is accepted and the frame resolved, and only then.
\<close>

theorem unit_gating:
  assumes "handle_coordsystem_reading ev cp dtype v st = Inr (fr, u)"
  shows "(\<not> unit_accepted ev u \<longrightarrow>
            (\<exists>st'. read_dig_bids ev ep cp rw dtype v st = (Inr rw, st')
               \<and> fs st' = fs st \<and> UnitNotAccepted ep \<in> set (warnings st')))
       \<and> (fst (resolve_frame ev dtype fr (space_of ev ep) st) = None \<longrightarrow>
            (\<exists>st'. read_dig_bids ev ep cp rw dtype v st = (Inr rw, st') \<and> fs st' = fs st))
       \<and> (\<forall>f. unit_accepted ev u \<and> fst (resolve_frame ev dtype fr (space_of ev ep) st) = Some f \<longrightarrow>
            read_dig_bids ev ep cp rw dtype v st =
              handle_electrodes_reading ev ep f u rw v
                (snd (resolve_frame ev dtype fr (space_of ev ep) st)))"
proof -
  obtain ofr st1 where r: "resolve_frame ev dtype fr (space_of ev ep) st = (ofr, st1)"
    by (cases "resolve_frame ev dtype fr (space_of ev ep) st")
  have f1: "fs st1 = fs st"
    using resolve_frame_fs [of ev dtype fr "space_of ev ep" st] by (simp add: r)
  show ?thesis
    unfolding read_dig_bids_cases [OF assms] r
    by (cases ofr) (simp_all add: f1)
qed

theorem unit_gating_witness:
  "(\<exists>st'. read_dig_bids sample_env sample_electrodes_path sample_coordsystem_path
              (sample_raw [''Fz'', ''Cz'']) ''eeg'' False
              (sidecars_state [(''EEGCoordinateSystem'', JStr ''CapTrak''),
                               (''EEGCoordinateUnits'', JStr ''inch'')])
           = (Inr (sample_raw [''Fz'', ''Cz'']), st')
         \<and> UnitNotAccepted sample_electrodes_path \<in> set (warnings st'))
   \<and> fst (read_dig_bids sample_env sample_electrodes_path sample_coordsystem_path
              (sample_raw [''Fz'', ''Cz'']) ''eeg'' False
              (sidecars_state [(''EEGCoordinateSystem'', JStr ''CapTrak''),
                               (''EEGCoordinateUnits'', JStr ''m'')]))
       = Inr (sample_raw [''Fz'', ''Cz'']
                \<lparr>montage := Some \<lparr>ch_pos = [(''Fz'', (Fin (1 / 2), Fin (1 / 2), Fin (1 / 2))),
                                            (''Cz'', (NaN, NaN, NaN))],
                                  frame = ''head''\<rparr>\<rparr>)"
proof -
  let ?bad = "sidecars_state [(''EEGCoordinateSystem'', JStr ''CapTrak''),
                              (''EEGCoordinateUnits'', JStr ''inch'')]"
  let ?good = "sidecars_state [(''EEGCoordinateSystem'', JStr ''CapTrak''),
                               (''EEGCoordinateUnits'', JStr ''m'')]"
  have hb: "handle_coordsystem_reading sample_env sample_coordsystem_path ''eeg'' False ?bad =
              Inr (''captrak'', JStr ''inch'')"
    by (simp add: handle_coordsystem_reading_def sidecars_descriptor frame_and_unit_def
        dict_getitem_def lower_CapTrak)
  have hg: "handle_coordsystem_reading sample_env sample_coordsystem_path ''eeg'' False ?good =
              Inr (''captrak'', JStr ''m'')"
    by (simp add: handle_coordsystem_reading_def sidecars_descriptor frame_and_unit_def
        dict_getitem_def lower_CapTrak)
  have ub: "\<not> unit_accepted sample_env (JStr ''inch'')"
    and ug: "unit_accepted sample_env (JStr ''m'')"
    by (simp_all add: unit_accepted_def sample_env_def)
  have rg: "resolve_frame sample_env ''eeg'' ''captrak'' (space_of sample_env sample_electrodes_path) ?good =
              (Some ''head'', ?good)"
    by (simp add: resolve_frame_def sample_env_def)
  from unit_gating [OF hb, of sample_electrodes_path "sample_raw [''Fz'', ''Cz'']"] ub
  have a: "\<exists>st'. read_dig_bids sample_env sample_electrodes_path sample_coordsystem_path
              (sample_raw [''Fz'', ''Cz'']) ''eeg'' False ?bad = (Inr (sample_raw [''Fz'', ''Cz'']), st')
         \<and> UnitNotAccepted sample_electrodes_path \<in> set (warnings st')"
    by blast
  from unit_gating [OF hg, of sample_electrodes_path "sample_raw [''Fz'', ''Cz'']"] ug rg
  have "read_dig_bids sample_env sample_electrodes_path sample_coordsystem_path
          (sample_raw [''Fz'', ''Cz'']) ''eeg'' False ?good =
        handle_electrodes_reading sample_env sample_electrodes_path ''head'' (JStr ''m'')
          (sample_raw [''Fz'', ''Cz'']) False ?good"
    by simp
  then have b: "fst (read_dig_bids sample_env sample_electrodes_path sample_coordsystem_path
              (sample_raw [''Fz'', ''Cz'']) ''eeg'' False ?good)
       = Inr (sample_raw [''Fz'', ''Cz'']
                \<lparr>montage := Some \<lparr>ch_pos = [(''Fz'', (Fin (1 / 2), Fin (1 / 2), Fin (1 / 2))),
                                            (''Cz'', (NaN, NaN, NaN))],
                                  frame = ''head''\<rparr>\<rparr>)"
    by (simp add: sidecars_read)
  from a b show ?thesis by (rule conjI)
qed


text \<open>
  C5, the iEEG fallback for the frame "other". The space entity of the path is looked
  up in place of the descriptor's frame name. When it is not in the table either, the
  code warns that it defaults to the unknown frame, yet the frame it then has is
  \<open>None\<close>: the recording comes back without a montage. Here on a descriptor
  "Other" in metres and a path without a space entity.
\<close>

theorem ieeg_other_without_space_not_attached:
  "read_dig_bids sample_env sample_electrodes_path sample_coordsystem_path
     (sample_raw [''Fz'', ''Cz'']) ''ieeg'' False
     (sidecars_state [(''iEEGCoordinateSystem'', JStr ''Other''),
                      (''iEEGCoordinateUnits'', JStr ''m'')])
   = (Inr (sample_raw [''Fz'', ''Cz'']),
      warn (DefaultingToUnknown ''other'')
        (sidecars_state [(''iEEGCoordinateSystem'', JStr ''Other''),
                         (''iEEGCoordinateUnits'', JStr ''m'')]))"
proof -
  let ?st = "sidecars_state [(''iEEGCoordinateSystem'', JStr ''Other''),
                             (''iEEGCoordinateUnits'', JStr ''m'')]"
  have h: "handle_coordsystem_reading sample_env sample_coordsystem_path ''ieeg'' False ?st =
             Inr (''other'', JStr ''m'')"
    by (simp add: handle_coordsystem_reading_def sidecars_descriptor frame_and_unit_def
        dict_getitem_def lower_Other)
  have o: "''other'' \<in> set (BIDS_IEEG_COORDINATE_FRAMES sample_env)"
    by (simp add: sample_env_def)
  have s: "map_of (BIDS_TO_MNE_FRAMES sample_env) (space_of sample_env sample_electrodes_path) = None"
    unfolding sample_space by (simp add: sample_env_def)
  have u: "unit_accepted sample_env (JStr ''m'')"
    by (simp add: unit_accepted_def sample_env_def)
  show ?thesis
    unfolding read_dig_bids_ieeg_other [OF h o s] using u by simp
qed

text \<open>
  C3, frame consistency on writing. For a recording whose digitized points carry two
  different frame tags: the descriptor emission raises ValueError and leaves the
  directory as it was, and the write orchestration finds the divergence before it
  writes anything: it warns and returns, and no file is created.
\<close>

theorem frame_consistency:
  assumes "dig rw = Some dg" and "a \<in> set dg" and "b \<in> set dg"
    and "coord_frame a \<noteq> coord_frame b"
  shows "coordsystem_json ev rw u orient name fname dtype ow v st = (Inl ValueError, st)
       \<and> write_dig_bids ev ep cp rt rw dtype ow v st = (Inr (), warn DigFramesDiffer st)
       \<and> fs (warn DigFramesDiffer st) = fs st"
proof -
  have d: "\<exists>a\<in>set dg. \<exists>b\<in>set dg. coord_frame a \<noteq> coord_frame b"
    using assms(2-4) by blast
  then have fd: "frames_diverge dg" by (simp add: frames_diverge_iff)
  from assms(2) obtain p ps where dg: "dg = p # ps" by (cases dg) auto
  have le: "list_ex (\<lambda>d. coord_frame p \<noteq> coord_frame d) (p # ps)"
    using d unfolding dg first_frame_differs_iff .
  show ?thesis
    using coordsystem_json_diverge [OF assms(1) fd]
      write_dig_bids_diverge [OF assms(1) [unfolded dg] le]
    by (simp add: warn_def)
qed


theorem frame_consistency_witness:
  "coordsystem_json sample_env (dig_raw [sample_point 3 1 4, sample_point 3 2 5]) ''m'' ''n/a''
     ''Other'' sample_coordsystem_path ''ieeg'' True False empty_state = (Inl ValueError, empty_state)
   \<and> write_dig_bids sample_env sample_electrodes_path sample_coordsystem_path ''bids''
       (dig_raw [sample_point 3 1 4, sample_point 3 2 5]) ''ieeg'' True False empty_state
     = (Inr (), warn DigFramesDiffer empty_state)
   \<and> fs (warn DigFramesDiffer empty_state) = fs empty_state"
proof -
  have d: "dig (dig_raw [sample_point 3 1 4, sample_point 3 2 5]) =
             Some [sample_point 3 1 4, sample_point 3 2 5]"
    by (simp add: dig_raw_def)
  have a: "sample_point 3 1 4 \<in> set [sample_point 3 1 4, sample_point 3 2 5]"
    and b: "sample_point 3 2 5 \<in> set [sample_point 3 1 4, sample_point 3 2 5]"
    by simp_all
  have n: "coord_frame (sample_point 3 1 4) \<noteq> coord_frame (sample_point 3 2 5)"
    by (simp add: sample_point_def)
  show ?thesis
    by (rule frame_consistency [OF d a b n])
qed


text \<open>
  C6, the rerouting of a nonstandard iEEG frame. For an iEEG write whose digitized points
  share one frame, with an external name outside the accepted iEEG vocabulary, and whose
  two target paths may be written: both files are written at paths built from the
  subject, session and acquisition of the electrodes path with the space entity set to
  the frame name, and the descriptor's \<^verbatim>\<open>iEEGCoordinateSystem\<close> is "Other".
\<close>

theorem ieeg_nonstandard_frame_rerouting:
  assumes dg: "dig rw = Some (p # ps)"
    and same: "\<forall>d\<in>set ps. coord_frame d = coord_frame p"
    and f: "map_of (MNE_FRAME_TO_STR ev) (coord_frame p) = Some f"
    and cf: "map_of (MNE_TO_BIDS_FRAMES ev) f = Some cf"
    and out: "cf \<notin> set (BIDS_IEEG_COORDINATE_FRAMES ev)"
    and free: "ow \<or>
        (fs st (BIDSPath (subject ep) (session ep) (acquisition ep) (Some cf)
                  ''electrodes'' ''.tsv'' rt) = None
         \<and> fs st (BIDSPath (subject ep) (session ep) (acquisition ep) (Some cf)
                  ''coordsystem'' ''.json'' rt) = None)"
  shows "\<exists>data doc.
           write_dig_bids ev ep cp rt rw ''ieeg'' ow v st =
             (Inr (),
              st\<lparr>fs := (fs st)
                 (BIDSPath (subject ep) (session ep) (acquisition ep) (Some cf)
                    ''electrodes'' ''.tsv'' rt \<mapsto> TsvFile data,
                  BIDSPath (subject ep) (session ep) (acquisition ep) (Some cf)
                    ''coordsystem'' ''.json'' rt \<mapsto> JsonFile doc)\<rparr>)
           \<and> electrodes_data ev rw ''ieeg'' = Inr data
           \<and> map_of doc ''iEEGCoordinateSystem'' = Some (JStr ''Other'')
           \<and> map_of doc ''iEEGCoordinateUnits'' = Some (JStr ''m'')"
proof -
  let ?E = "BIDSPath (subject ep) (session ep) (acquisition ep) (Some cf) ''electrodes'' ''.tsv'' rt"
  let ?C = "BIDSPath (subject ep) (session ep) (acquisition ep) (Some cf) ''coordsystem'' ''.json'' rt"
  have ne: "?E \<noteq> ?C" by (simp add: BIDSPath_def)
  have nd: "\<not> frames_diverge (case dig rw of None \<Rightarrow> [] | Some d \<Rightarrow> d)"
    using consistent_not_diverge(1) [OF same] by (simp add: dg)
  have w: "write_dig_bids ev ep cp rt rw ''ieeg'' ow v st =
             write_both ev rw ?E ?C ''m'' ''n/a'' ''Other'' ''ieeg'' ow v st"
    using consistent_not_diverge(2) [OF same] f cf out
    by (simp add: write_dig_bids_def dg Let_def get_entities_from_fname_def)
  show ?thesis
    unfolding w by (rule write_both_ieeg [OF nd ne free])
qed

theorem ieeg_nonstandard_frame_rerouting_witness:
  "\<exists>data doc.
     write_dig_bids sample_env sample_electrodes_path sample_coordsystem_path ''bids''
       (dig_raw [sample_point 3 1 5, sample_point 3 2 5]) ''ieeg'' False False empty_state =
       (Inr (),
        empty_state\<lparr>fs := (fs empty_state)
           (BIDSPath (Some ''01'') (Some ''01'') None (Some ''mri'') ''electrodes'' ''.tsv'' ''bids''
              \<mapsto> TsvFile data,
            BIDSPath (Some ''01'') (Some ''01'') None (Some ''mri'') ''coordsystem'' ''.json'' ''bids''
              \<mapsto> JsonFile doc)\<rparr>)
     \<and> map_of doc ''iEEGCoordinateSystem'' = Some (JStr ''Other'')"
proof -
  let ?rw = "dig_raw [sample_point 3 1 5, sample_point 3 2 5]"
  have d: "dig ?rw = Some (sample_point 3 1 5 # [sample_point 3 2 5])"
    by (simp add: dig_raw_def)
  have same: "\<forall>d\<in>set [sample_point 3 2 5]. coord_frame d = coord_frame (sample_point 3 1 5)"
    by (simp add: sample_point_def)
  have f: "map_of (MNE_FRAME_TO_STR sample_env) (coord_frame (sample_point 3 1 5)) = Some ''mri''"
    by (simp add: sample_env_def sample_point_def)
  have cf: "map_of (MNE_TO_BIDS_FRAMES sample_env) ''mri'' = Some ''mri''"
    by (simp add: sample_env_def)
  have out: "''mri'' \<notin> set (BIDS_IEEG_COORDINATE_FRAMES sample_env)"
    by (simp add: sample_env_def)
  have free: "False \<or>
        (fs empty_state (BIDSPath (subject sample_electrodes_path) (session sample_electrodes_path)
                  (acquisition sample_electrodes_path) (Some ''mri'') ''electrodes'' ''.tsv'' ''bids'') = None
         \<and> fs empty_state (BIDSPath (subject sample_electrodes_path) (session sample_electrodes_path)
                  (acquisition sample_electrodes_path) (Some ''mri'') ''coordsystem'' ''.json'' ''bids'') = None)"
    by (simp add: empty_state_def)
  from ieeg_nonstandard_frame_rerouting [OF d same f cf out free,
      of sample_coordsystem_path False]
  show ?thesis
    unfolding sample_entities by blast
qed


text \<open>
  C7, EEG landmark gating. For an EEG write on a recording with digitized points: when
  the points lack one of the landmarks LPA, NAS, RPA, or the frame is not the head frame,
  the call warns and returns with the directory as it was; when all three are present,
  the points share the head frame and the two target paths may be written, both files
  are written, the descriptor with \<^verbatim>\<open>EEGCoordinateSystem\<close> CapTrak and unit m.
\<close>

theorem eeg_landmark_gating:
  assumes dg: "dig rw = Some (p # ps)"
  shows "(coord_frame p \<noteq> FIFFV_COORD_HEAD
          \<or> \<not> (has_landmark (p # ps) FIFFV_POINT_LPA \<and> has_landmark (p # ps) FIFFV_POINT_NASION
                \<and> has_landmark (p # ps) FIFFV_POINT_RPA) \<longrightarrow>
          write_dig_bids ev ep cp rt rw ''eeg'' ow v st =
            (Inr (),
             warn (if list_ex (\<lambda>d. coord_frame p \<noteq> coord_frame d) (p # ps)
                   then DigFramesDiffer else SkippingEEG) st))
       \<and> (coord_frame p = FIFFV_COORD_HEAD \<and> (\<forall>d\<in>set ps. coord_frame d = coord_frame p)
          \<and> has_landmark (p # ps) FIFFV_POINT_LPA \<and> has_landmark (p # ps) FIFFV_POINT_NASION
          \<and> has_landmark (p # ps) FIFFV_POINT_RPA
          \<and> ep \<noteq> cp \<and> (ow \<or> (fs st ep = None \<and> fs st cp = None)) \<longrightarrow>
          (\<exists>data doc.
             write_dig_bids ev ep cp rt rw ''eeg'' ow v st =
               (Inr (), st\<lparr>fs := (fs st)(ep \<mapsto> TsvFile data, cp \<mapsto> JsonFile doc)\<rparr>)
             \<and> electrodes_data ev rw ''eeg'' = Inr data
             \<and> map_of doc ''EEGCoordinateSystem'' = Some (JStr ''CapTrak'')
             \<and> map_of doc ''EEGCoordinateUnits'' = Some (JStr ''m'')))"
proof (intro conjI impI)
  assume skip: "coord_frame p \<noteq> FIFFV_COORD_HEAD
          \<or> \<not> (has_landmark (p # ps) FIFFV_POINT_LPA \<and> has_landmark (p # ps) FIFFV_POINT_NASION
                \<and> has_landmark (p # ps) FIFFV_POINT_RPA)"
  then have c: "\<not> (coord_frame p = FIFFV_COORD_HEAD
               \<and> set [''RPA'', ''NAS'', ''LPA''] = set (map fst (extract_landmarks (p # ps))))"
    unfolding landmarks_complete_iff by blast
  show "write_dig_bids ev ep cp rt rw ''eeg'' ow v st =
            (Inr (),
             warn (if list_ex (\<lambda>d. coord_frame p \<noteq> coord_frame d) (p # ps)
                   then DigFramesDiffer else SkippingEEG) st)"
  proof (cases "list_ex (\<lambda>d. coord_frame p \<noteq> coord_frame d) (p # ps)")
    case True
    from write_dig_bids_diverge [OF dg True] True show ?thesis
      by (simp only: if_True)
  next
    case False
    from write_dig_bids_eeg [OF dg False] c False show ?thesis
      by (simp only: if_False)
  qed
next
  assume go: "coord_frame p = FIFFV_COORD_HEAD \<and> (\<forall>d\<in>set ps. coord_frame d = coord_frame p)
          \<and> has_landmark (p # ps) FIFFV_POINT_LPA \<and> has_landmark (p # ps) FIFFV_POINT_NASION
          \<and> has_landmark (p # ps) FIFFV_POINT_RPA
          \<and> ep \<noteq> cp \<and> (ow \<or> (fs st ep = None \<and> fs st cp = None))"
  then have same: "\<forall>d\<in>set ps. coord_frame d = coord_frame p"
    and ne: "ep \<noteq> cp" and free: "ow \<or> (fs st ep = None \<and> fs st cp = None)"
    by auto
  from go have lm: "coord_frame p = FIFFV_COORD_HEAD
               \<and> set [''RPA'', ''NAS'', ''LPA''] = set (map fst (extract_landmarks (p # ps)))"
    unfolding landmarks_complete_iff by blast
  have nd: "\<not> frames_diverge (case dig rw of None \<Rightarrow> [] | Some d \<Rightarrow> d)"
    using consistent_not_diverge(1) [OF same] by (simp add: dg)
  have w: "write_dig_bids ev ep cp rt rw ''eeg'' ow v st =
             write_both ev rw ep cp ''m'' ''RAS'' ''CapTrak'' ''eeg'' ow v st"
    unfolding write_dig_bids_eeg [OF dg consistent_not_diverge(2) [OF same]]
    using lm by (rule if_P)
  show "\<exists>data doc.
             write_dig_bids ev ep cp rt rw ''eeg'' ow v st =
               (Inr (), st\<lparr>fs := (fs st)(ep \<mapsto> TsvFile data, cp \<mapsto> JsonFile doc)\<rparr>)
             \<and> electrodes_data ev rw ''eeg'' = Inr data
             \<and> map_of doc ''EEGCoordinateSystem'' = Some (JStr ''CapTrak'')
             \<and> map_of doc ''EEGCoordinateUnits'' = Some (JStr ''m'')"
    unfolding w by (rule write_both_eeg [OF nd ne free])
qed

theorem eeg_landmark_gating_witness:
  "write_dig_bids sample_env sample_electrodes_path sample_coordsystem_path ''bids''
     (dig_raw [sample_point 3 1 4, sample_point 3 2 4]) ''eeg'' False False empty_state
     = (Inr (), warn SkippingEEG empty_state)
   \<and> (\<exists>data doc.
        write_dig_bids sample_env sample_electrodes_path sample_coordsystem_path ''bids''
          (dig_raw [sample_point 1 1 4, sample_point 1 2 4, sample_point 1 3 4, sample_point 3 1 4])
          ''eeg'' False False empty_state
        = (Inr (),
           empty_state\<lparr>fs := (fs empty_state)
              (sample_electrodes_path \<mapsto> TsvFile data, sample_coordsystem_path \<mapsto> JsonFile doc)\<rparr>)
        \<and> map_of doc ''EEGCoordinateSystem'' = Some (JStr ''CapTrak'')
        \<and> map_of doc ''EEGCoordinateUnits'' = Some (JStr ''m''))"
proof -
  let ?bare = "[sample_point 3 1 4, sample_point 3 2 4]"
  let ?full = "[sample_point 1 1 4, sample_point 1 2 4, sample_point 1 3 4, sample_point 3 1 4]"
  have d1: "dig (dig_raw ?bare) = Some (sample_point 3 1 4 # [sample_point 3 2 4])"
    by (simp add: dig_raw_def)
  have no: "\<not> has_landmark ?bare FIFFV_POINT_LPA"
    by (simp add: has_landmark_def sample_point_def FIFFV_POINT_CARDINAL_def)
  have nx: "\<not> list_ex (\<lambda>d. coord_frame (sample_point 3 1 4) \<noteq> coord_frame d) ?bare"
    by (simp add: sample_point_def)
  from eeg_landmark_gating [OF d1, of sample_env sample_electrodes_path sample_coordsystem_path
      "''bids''" False False empty_state] no nx
  have a: "write_dig_bids sample_env sample_electrodes_path sample_coordsystem_path ''bids''
     (dig_raw ?bare) ''eeg'' False False empty_state = (Inr (), warn SkippingEEG empty_state)"
    by (simp only: if_False) blast
  have d2: "dig (dig_raw ?full) =
              Some (sample_point 1 1 4 # [sample_point 1 2 4, sample_point 1 3 4, sample_point 3 1 4])"
    by (simp add: dig_raw_def)
  have go: "coord_frame (sample_point 1 1 4) = FIFFV_COORD_HEAD
      \<and> (\<forall>d\<in>set [sample_point 1 2 4, sample_point 1 3 4, sample_point 3 1 4].
            coord_frame d = coord_frame (sample_point 1 1 4))
      \<and> has_landmark ?full FIFFV_POINT_LPA \<and> has_landmark ?full FIFFV_POINT_NASION
      \<and> has_landmark ?full FIFFV_POINT_RPA
      \<and> sample_electrodes_path \<noteq> sample_coordsystem_path
      \<and> (False \<or> (fs empty_state sample_electrodes_path = None
                    \<and> fs empty_state sample_coordsystem_path = None))"
    by (simp add: has_landmark_def sample_point_def FIFFV_POINT_CARDINAL_def FIFFV_COORD_HEAD_def
        FIFFV_POINT_LPA_def FIFFV_POINT_NASION_def FIFFV_POINT_RPA_def sample_paths_differ
        empty_state_def)
  from eeg_landmark_gating [OF d2, of sample_env sample_electrodes_path sample_coordsystem_path
      "''bids''" False False empty_state] go
  have b: "\<exists>data doc.
        write_dig_bids sample_env sample_electrodes_path sample_coordsystem_path ''bids''
          (dig_raw ?full) ''eeg'' False False empty_state
        = (Inr (),
           empty_state\<lparr>fs := (fs empty_state)
              (sample_electrodes_path \<mapsto> TsvFile data, sample_coordsystem_path \<mapsto> JsonFile doc)\<rparr>)
        \<and> map_of doc ''EEGCoordinateSystem'' = Some (JStr ''CapTrak'')
        \<and> map_of doc ''EEGCoordinateUnits'' = Some (JStr ''m'')"
    by blast
  from a b show ?thesis by (rule conjI)
qed

text \<open>
  C8, tolerance of an empty list of digitized points. As stated the claim fails: on the
  empty list \<^verbatim>\<open>raw.info['dig'][0]\<close> raises IndexError.
\<close>

theorem empty_dig_raises_counterexample:
  "write_dig_bids sample_env sample_electrodes_path sample_coordsystem_path ''bids''
     (dig_raw []) ''eeg'' False False empty_state = (Inl IndexError, empty_state)"
  by (simp add: write_dig_bids_def dig_raw_def Let_def)


text \<open>
  C8 as amended: for a recording whose list of digitized points is not empty and whose
  points do not share one frame, the write orchestration does not raise; it emits one
  warning and returns without creating a file.
\<close>

theorem inconsistent_dig_tolerated:
  assumes "dig rw = Some (p # ps)" and "d \<in> set ps" and "coord_frame d \<noteq> coord_frame p"
  shows "write_dig_bids ev ep cp rt rw dtype ow v st = (Inr (), warn DigFramesDiffer st)
       \<and> fs (warn DigFramesDiffer st) = fs st
       \<and> warnings (warn DigFramesDiffer st) = warnings st @ [DigFramesDiffer]"
proof -
  have "list_ex (\<lambda>d. coord_frame p \<noteq> coord_frame d) (p # ps)"
    using assms(2,3) by (simp add: list_ex_iff) (metis (no_types))
  from write_dig_bids_diverge [OF assms(1) this] show ?thesis
    by (simp add: warn_def)
qed


theorem inconsistent_dig_tolerated_witness:
  "write_dig_bids sample_env sample_electrodes_path sample_coordsystem_path ''bids''
     (dig_raw [sample_point 3 1 4, sample_point 3 2 5]) ''eeg'' False False empty_state
   = (Inr (), warn DigFramesDiffer empty_state)
   \<and> fs (warn DigFramesDiffer empty_state) = fs empty_state
   \<and> warnings (warn DigFramesDiffer empty_state) = warnings empty_state @ [DigFramesDiffer]"
proof -
  have d: "dig (dig_raw [sample_point 3 1 4, sample_point 3 2 5]) =
             Some (sample_point 3 1 4 # [sample_point 3 2 5])"
    by (simp add: dig_raw_def)
  have m: "sample_point 3 2 5 \<in> set [sample_point 3 2 5]"
    by simp
  have n: "coord_frame (sample_point 3 2 5) \<noteq> coord_frame (sample_point 3 1 4)"
    by (simp add: sample_point_def)
  show ?thesis
    by (rule inconsistent_dig_tolerated [OF d m n])
qed




end
